theory Spec2Isabelle
  imports Main "HOL-Library.Word"
begin

section \<open>JavaScript values as server.js handles them\<close>

text \<open>
  A JavaScript string is a sequence of UTF-16 code units: \<open>length\<close>, \<open>substring\<close>,
  \<open>startsWith\<close>, \<open>includes\<close> and the regular expressions of server.js (none has the
  \<open>u\<close> flag) all count and compare code units.
\<close>

type_synonym jschar = "16 word"
type_synonym jsstring = "jschar list"

definition asc :: "string \<Rightarrow> jsstring" where
  "asc s = map (\<lambda>c. of_char c) s"

text \<open>
  The values that reach the program: what \<open>JSON.parse\<close> returns, and \<open>undefined\<close>,
  which a read of a missing property gives. The program does no arithmetic on a parsed
  number; it tests it for truthiness and converts it to a string. A number is therefore
  carried as the decimal rendering that \<open>String(n)\<close> gives (\<open>0\<close> for both zeros).
  An object is the list of its own properties.
\<close>

datatype jsval =
    JUndefined
  | JNull
  | JBool bool
  | JNum jsstring
  | JStr jsstring
  | JArr "jsval list"
  | JObj "(jsstring \<times> jsval) list"

text \<open>
  The result of \<open>parseInt\<close> and the argument of \<open>delay\<close>: \<open>NaN\<close>, an integer of a
  magnitude up to \<open>2^53\<close>, which a double holds exactly, the negative zero, or a double
  beyond \<open>2^53\<close> in magnitude (negative when the flag is set): \<open>parseInt\<close> rounds a
  longer run of digits to such a double, or to an infinity, and its value is left open.
\<close>

datatype jsnumber = NaN | Num int | MinusZero | Beyond bool

text \<open>The TypeErrors the engine can raise on the operations the program performs.\<close>

datatype type_error =
    ReadOfNullish jsstring   \<comment> \<open>a property read on \<open>null\<close> or \<open>undefined\<close>\<close>
  | NotAFunction jsstring    \<comment> \<open>a call of a property that is no function\<close>
  | NotPrimitive             \<comment> \<open>an object that no \<open>toString\<close>/\<open>valueOf\<close> converts\<close>

datatype exn = SyntaxError jsstring | TypeError type_error

fun truthy :: "jsval \<Rightarrow> bool" where
  "truthy JUndefined = False"
| "truthy JNull = False"
| "truthy (JBool b) = b"
| "truthy (JNum d) = (d \<noteq> asc ''0'' \<and> d \<noteq> asc ''NaN'')"
| "truthy (JStr s) = (s \<noteq> [])"
| "truthy (JArr xs) = True"
| "truthy (JObj kvs) = True"

text \<open>\<open>a || b\<close>\<close>

definition or_else :: "jsval \<Rightarrow> jsval \<Rightarrow> jsval" where
  "or_else a b = (if truthy a then a else b)"

fun nullish :: "jsval \<Rightarrow> bool" where
  "nullish JUndefined = True"
| "nullish JNull = True"
| "nullish v = False"

fun isArray :: "jsval \<Rightarrow> bool" where
  "isArray (JArr xs) = True"
| "isArray v = False"

text \<open>
  \<open>v.k\<close> on a value that is neither \<open>null\<close> nor \<open>undefined\<close>, for the property names
  server.js reads (error, details, retryDelay, message, code, candidates, finishReason,
  content, parts, text, sentiment, themes, tone, summary): none of them is a property of
  a string, a number, a boolean or an array, nor inherited by an object.
\<close>

fun own :: "jsval \<Rightarrow> jsstring \<Rightarrow> jsval" where
  "own (JObj kvs) k = (case map_of kvs k of None \<Rightarrow> JUndefined | Some v \<Rightarrow> v)"
| "own v k = JUndefined"

text \<open>\<open>v.k\<close>: a TypeError on \<open>null\<close> and \<open>undefined\<close>.\<close>

definition getProp :: "jsval \<Rightarrow> jsstring \<Rightarrow> type_error + jsval" where
  "getProp v k = (if nullish v then Inl (ReadOfNullish k) else Inr (own v k))"

text \<open>\<open>v?.k\<close>\<close>

definition getOptional :: "jsval \<Rightarrow> jsstring \<Rightarrow> jsval" where
  "getOptional v k = (if nullish v then JUndefined else own v k)"

text \<open>
  \<open>v[0]\<close> on a value that is neither \<open>null\<close> nor \<open>undefined\<close> (server.js indexes
  only behind a truthiness test): the first element of an array, the first code unit of
  a string, the property \<open>"0"\<close> of an object.
\<close>

fun elem0 :: "jsval \<Rightarrow> jsval" where
  "elem0 (JArr xs) = (case xs of [] \<Rightarrow> JUndefined | x # _ \<Rightarrow> x)"
| "elem0 (JStr s) = (case s of [] \<Rightarrow> JUndefined | c # _ \<Rightarrow> JStr [c])"
| "elem0 (JObj kvs) = own (JObj kvs) (asc ''0'')"
| "elem0 v = JUndefined"

subsection \<open>String operations\<close>

text \<open>White space and line terminators, as \<open>trim\<close> and \<open>parseInt\<close> strip them.\<close>

definition isWhiteSpace :: "jschar \<Rightarrow> bool" where
  "isWhiteSpace c \<longleftrightarrow>
     c = 0x0009 \<or> c = 0x000A \<or> c = 0x000B \<or> c = 0x000C \<or> c = 0x000D \<or> c = 0x0020 \<or>
     c = 0x00A0 \<or> c = 0x1680 \<or> (0x2000 \<le> c \<and> c \<le> 0x200A) \<or> c = 0x2028 \<or>
     c = 0x2029 \<or> c = 0x202F \<or> c = 0x205F \<or> c = 0x3000 \<or> c = 0xFEFF"

definition trim :: "jsstring \<Rightarrow> jsstring" where
  "trim s = rev (dropWhile isWhiteSpace (rev (dropWhile isWhiteSpace s)))"

definition startsWith :: "jsstring \<Rightarrow> jsstring \<Rightarrow> bool" where
  "startsWith s p \<longleftrightarrow> take (length p) s = p"

fun includes_str :: "jsstring \<Rightarrow> jsstring \<Rightarrow> bool" where
  "includes_str [] p = (p = [])"
| "includes_str (c # cs) p = (startsWith (c # cs) p \<or> includes_str cs p)"

text \<open>\<open>s.substring(0, n)\<close>\<close>

definition substring0 :: "jsstring \<Rightarrow> nat \<Rightarrow> jsstring" where
  "substring0 s n = take n s"

text \<open>
  \<open>s.replace(/P\n?/g, '')\<close> for a literal \<open>P\<close>: every match of \<open>P\<close>, with the line
  feed after it when there is one, is removed, scanning from the left.
\<close>

function removeAll :: "jsstring \<Rightarrow> jsstring \<Rightarrow> jsstring" where
  "removeAll p s =
     (case s of
        [] \<Rightarrow> []
      | c # cs \<Rightarrow>
          if p \<noteq> [] \<and> startsWith s p
          then removeAll p (case drop (length p) s of
                              [] \<Rightarrow> []
                            | d # ds \<Rightarrow> if d = 0x000A then ds else d # ds)
          else c # removeAll p cs)"
  by pat_completeness auto
termination
proof (relation "measure (\<lambda>(p, s). length s)", goal_cases)
  case 1
  show ?case by simp
next
  case (2 p s c cs)
  let ?r = "drop (length p) s"
  have lt: "length ?r < length s"
    using 2 by (cases p) simp_all
  have le: "length (case r of [] \<Rightarrow> [] | d # ds \<Rightarrow> if d = 0x000A then ds else d # ds) \<le> length r"
    for r :: jsstring
    by (cases r) simp_all
  from le_less_trans [OF le [of ?r] lt] show ?case
    by simp
next
  case (3 p s c cs)
  then show ?case by simp
qed

declare removeAll.simps [simp del]

text \<open>The decimal digits of a status code, as a template literal renders it.\<close>

function decimal :: "nat \<Rightarrow> jsstring" where
  "decimal n = (if n < 10 then [48 + of_nat n] else decimal (n div 10) @ [48 + of_nat (n mod 10)])"
  by pat_completeness auto
termination
  by (relation "measure id") auto

declare decimal.simps [simp del]

subsection \<open>Conversion to a string, and parseInt\<close>

fun join_comma :: "(type_error + jsstring) list \<Rightarrow> type_error + jsstring" where
  "join_comma [] = Inr []"
| "join_comma [x] = x"
| "join_comma (x # y # ys) =
     (case x of
        Inl e \<Rightarrow> Inl e
      | Inr s \<Rightarrow> (case join_comma (y # ys) of Inl e \<Rightarrow> Inl e | Inr t \<Rightarrow> Inr (s @ asc '','' @ t)))"

text \<open>
  \<open>String(v)\<close>. An array is joined with commas, \<open>null\<close> and \<open>undefined\<close> elements as
  empty strings. An object prints as \<open>[object Object]\<close>, unless it has a property
  \<open>toString\<close> of its own: a parsed value is never a function, so the conversion finds
  no method that returns a primitive and raises a TypeError.
\<close>

fun ToString :: "jsval \<Rightarrow> type_error + jsstring" where
  "ToString JUndefined = Inr (asc ''undefined'')"
| "ToString JNull = Inr (asc ''null'')"
| "ToString (JBool b) = Inr (if b then asc ''true'' else asc ''false'')"
| "ToString (JNum d) = Inr d"
| "ToString (JStr s) = Inr s"
| "ToString (JArr xs) =
     join_comma (map (\<lambda>x. if nullish x then Inr [] else ToString x) xs)"
| "ToString (JObj kvs) =
     (if map_of kvs (asc ''toString'') \<noteq> None then Inl NotPrimitive
      else Inr (asc ''[object Object]''))"

definition isDigit :: "jschar \<Rightarrow> bool" where
  "isDigit c \<longleftrightarrow> 48 \<le> c \<and> c \<le> 57"

definition digitsValue :: "jsstring \<Rightarrow> int" where
  "digitsValue ds = foldl (\<lambda>a c. 10 * a + (uint c - 48)) 0 ds"

text \<open>
  \<open>parseInt(s, 10)\<close>: leading white space, an optional sign, then the longest run of
  decimal digits; \<open>NaN\<close> when there is no digit. The digits give an integer, which
  is returned as a double: exactly up to \<open>2^53\<close>, rounded beyond, and as the negative zero
  for a zero after a minus sign.
\<close>

definition parseInt10 :: "jsstring \<Rightarrow> jsnumber" where
  "parseInt10 s =
     (let t = dropWhile isWhiteSpace s;
          neg = (t \<noteq> [] \<and> hd t = 45);
          u = (if t \<noteq> [] \<and> (hd t = 45 \<or> hd t = 43) then tl t else t);
          ds = takeWhile isDigit u
      in if ds = [] then NaN
         else if 9007199254740992 < digitsValue ds then Beyond neg
         else if neg \<and> digitsValue ds = 0 then MinusZero
         else Num (if neg then - digitsValue ds else digitsValue ds))"

section \<open>The analysis gateway: server.js\<close>

subsection \<open>What the program runs in\<close>

text \<open>
  An outbound request ends in a transport error (\<open>req.on('error')\<close>) or in a response
  with a status code and a body (\<open>res.on('end')\<close>).
\<close>

datatype reply = TransportError jsstring | Http nat jsstring

text \<open>
  What the program does to the outside: a POST to the \<open>generateContent\<close> endpoint of a
  model, carrying the prompt built from a text, and a call of \<open>delay(seconds)\<close>.
  What it writes to the console is left out.
\<close>

datatype event = Request jsstring jsstring | Delay jsnumber

text \<open>
  \<open>JSON.parse\<close> (\<open>Inl m\<close>: it throws a SyntaxError with message \<open>m\<close>) and the messages
  of TypeErrors belong to the engine, the replies to the remote provider, which may
  answer by everything that happened so far, and \<open>GEMINI_MODEL\<close> to the configuration.
  The program is verified for every one of them.
\<close>

record world =
  JSON_parse :: "jsstring \<Rightarrow> jsstring + jsval"
  TypeError_message :: "type_error \<Rightarrow> jsstring"
  remote :: "event list \<Rightarrow> reply"
  GEMINI_MODEL :: jsstring

fun exn_message :: "world \<Rightarrow> exn \<Rightarrow> jsstring" where
  "exn_message W (SyntaxError m) = m"
| "exn_message W (TypeError e) = TypeError_message W e"

record AnalysisResult =
  sentiment :: jsval
  themes :: jsval
  tone :: jsval
  summary :: jsval

subsection \<open>extractRetryDelay (server.js, lines 78 to 91)\<close>

text \<open>
  The \<open>for\<close> loop over \<open>errorResponse.error.details\<close>: \<open>Inr (Some d)\<close> when it returns
  \<open>d\<close>, \<open>Inr None\<close> when it ends, \<open>Inl e\<close> when it throws.
\<close>

fun scanDetails :: "jsval list \<Rightarrow> type_error + jsnumber option" where
  "scanDetails [] = Inr None"
| "scanDetails (detail # rest) =
     (case getProp detail (asc ''retryDelay'') of
        Inl e \<Rightarrow> Inl e
      | Inr retryDelay \<Rightarrow>
          if truthy retryDelay
          then (case ToString retryDelay of
                  Inl e \<Rightarrow> Inl e
                | Inr s \<Rightarrow> Inr (Some (parseInt10 s)))
          else scanDetails rest)"

text \<open>The \<open>try\<close> block; the \<open>catch\<close> ignores whatever it throws.\<close>

definition extractRetryDelay_try :: "jsval \<Rightarrow> type_error + jsnumber option" where
  "extractRetryDelay_try errorResponse =
     (case getProp errorResponse (asc ''error'') of
        Inl e \<Rightarrow> Inl e
      | Inr err \<Rightarrow>
          (case getOptional err (asc ''details'') of
             JArr details \<Rightarrow> scanDetails details
           | _ \<Rightarrow> Inr None))"

definition extractRetryDelay :: "jsval \<Rightarrow> jsnumber" where
  "extractRetryDelay errorResponse =
     (case extractRetryDelay_try errorResponse of
        Inr (Some d) \<Rightarrow> d
      | _ \<Rightarrow> Num 30)"

subsection \<open>callGeminiAPI (server.js, lines 94 to 256)\<close>

text \<open>Lines 207 to 212: the markdown fence around the generated text is removed.\<close>

definition fence :: jsstring where
  "fence = [0x60, 0x60, 0x60]"

definition stripFences :: "jsstring \<Rightarrow> jsstring" where
  "stripFences textResponse =
     (let jsonText = trim textResponse
      in if startsWith jsonText (fence @ asc ''json'')
         then trim (removeAll fence (removeAll (fence @ asc ''json'') jsonText))
         else if startsWith jsonText fence
         then trim (removeAll fence jsonText)
         else jsonText)"

text \<open>
  Lines 214 to 232. The inner \<open>try\<close> holds \<open>JSON.parse\<close> and the reads of the four
  fields; \<open>analysis.sentiment\<close> is read first and throws when \<open>analysis\<close> is \<open>null\<close>.
  Whatever is thrown, the \<open>catch\<close> resolves with the fallback.
\<close>

definition normalized :: "jsval \<Rightarrow> jsstring \<Rightarrow> exn + AnalysisResult" where
  "normalized analysis textResponse =
     (case getProp analysis (asc ''sentiment'') of
        Inl e \<Rightarrow> Inl (TypeError e)
      | Inr s \<Rightarrow>
          Inr \<lparr> sentiment = or_else s (JStr (asc ''neutral'')),
                themes = (if isArray (own analysis (asc ''themes''))
                          then own analysis (asc ''themes'') else JArr []),
                tone = or_else (own analysis (asc ''tone'')) (JStr (asc ''Not specified'')),
                summary = or_else (own analysis (asc ''summary''))
                            (JStr (substring0 textResponse 200)) \<rparr>)"

definition fallback :: "jsstring \<Rightarrow> AnalysisResult" where
  "fallback textResponse =
     \<lparr> sentiment = JStr (asc ''neutral''),
       themes = JArr [],
       tone = JStr (asc ''mixed''),
       summary = JStr (substring0 textResponse 500) \<rparr>"

definition parseAnalysis :: "world \<Rightarrow> jsstring \<Rightarrow> AnalysisResult" where
  "parseAnalysis W textResponse =
     (case JSON_parse W (stripFences textResponse) of
        Inl m \<Rightarrow> fallback textResponse
      | Inr analysis \<Rightarrow>
          (case normalized analysis textResponse of
             Inl e \<Rightarrow> fallback textResponse
           | Inr result \<Rightarrow> result))"

text \<open>
  A promise settles once: \<open>Inl m\<close> is \<open>reject(new Error(m))\<close>, of which a caller
  reads the message only, and \<open>Inr r\<close> is \<open>resolve(r)\<close>.
\<close>

type_synonym settled = "jsstring + AnalysisResult"

text \<open>
  Lines 188 to 238, the body of the outer \<open>try\<close> for status 200; \<open>Inl\<close> is what it
  throws. \<open>textResponse.trim()\<close> throws on a truthy value that is no string.
\<close>

definition onStatus200 :: "world \<Rightarrow> jsval \<Rightarrow> exn + settled" where
  "onStatus200 W response =
     (case getProp response (asc ''candidates'') of
        Inl e \<Rightarrow> Inl (TypeError e)
      | Inr candidates \<Rightarrow>
          if truthy candidates \<and> truthy (elem0 candidates)
          then (let candidate = elem0 candidates;
                    content = own candidate (asc ''content'');
                    parts = own content (asc ''parts'')
                in if truthy content \<and> truthy parts \<and> truthy (elem0 parts)
                   then (let textResponse = own (elem0 parts) (asc ''text'')
                         in if \<not> truthy textResponse
                            then Inr (Inl (asc ''Empty response from Gemini API''))
                            else (case textResponse of
                                    JStr t \<Rightarrow> Inr (Inr (parseAnalysis W t))
                                  | _ \<Rightarrow> Inl (TypeError (NotAFunction (asc ''trim'')))))
                   else Inr (Inl (asc ''Invalid response format: missing content.parts'')))
          else Inr (Inl (asc ''Invalid response format: missing candidates'')))"

text \<open>Lines 182 to 186: the message of the error a status other than 200 rejects with.\<close>

definition onOtherStatus :: "nat \<Rightarrow> jsval \<Rightarrow> exn + settled" where
  "onOtherStatus statusCode response =
     (case getProp response (asc ''error'') of
        Inl e \<Rightarrow> Inl (TypeError e)
      | Inr err \<Rightarrow>
          (let errorMessage =
                 or_else (or_else (getOptional err (asc ''message''))
                                  (getOptional err (asc ''code'')))
                         (JStr (asc ''API request failed with status '' @ decimal statusCode))
           in case ToString errorMessage of
                Inl e \<Rightarrow> Inl (TypeError e)
              | Inr m \<Rightarrow> Inr (Inl m)))"

text \<open>The outer \<open>catch\<close>, lines 239 to 243.\<close>

definition caught :: "world \<Rightarrow> exn + settled \<Rightarrow> settled" where
  "caught W r =
     (case r of
        Inl e \<Rightarrow> Inl (asc ''Failed to parse API response: '' @ exn_message W e)
      | Inr s \<Rightarrow> s)"

text \<open>
  The call itself. The log holds what happened so far; the call appends its request,
  reads the reply and, on status 429 with retries left, its delay, then calls itself.
  The configuration is taken to give a well-formed URL, so that building the request
  does not throw.
\<close>

function callGeminiAPI ::
  "world \<Rightarrow> jsstring \<Rightarrow> jsstring \<Rightarrow> nat \<Rightarrow> nat \<Rightarrow> event list \<Rightarrow> settled \<times> event list" where
  "callGeminiAPI W userText modelName retryCount maxRetries log =
     (let sent = log @ [Request modelName userText]
      in case remote W sent of
           TransportError m \<Rightarrow> (Inl (asc ''Request failed: '' @ m), sent)
         | Http statusCode data \<Rightarrow>
             (case JSON_parse W data of
                Inl m \<Rightarrow> (caught W (Inl (SyntaxError m)), sent)
              | Inr response \<Rightarrow>
                  if statusCode = 429 \<and> retryCount < maxRetries
                  then callGeminiAPI W userText modelName (retryCount + 1) maxRetries
                         (sent @ [Delay (extractRetryDelay response)])
                  else if statusCode \<noteq> 200
                  then (caught W (onOtherStatus statusCode response), sent)
                  else (caught W (onStatus200 W response), sent)))"
  by pat_completeness auto
termination
  by (relation "measure (\<lambda>(W, userText, modelName, retryCount, maxRetries, log).
                           maxRetries - retryCount)") auto

declare callGeminiAPI.simps [simp del]

subsection \<open>POST /api/analyze (server.js, lines 259 to 322)\<close>

datatype http_response =
    Json200 AnalysisResult   \<comment> \<open>\<open>{success: true, analysis}\<close>\<close>
  | Json400 jsstring         \<comment> \<open>\<open>{success: false, error}\<close>, status 400\<close>
  | Json500 jsstring         \<comment> \<open>\<open>{success: false, error}\<close>, status 500\<close>

definition alternativeModels :: "jsstring list" where
  "alternativeModels =
     [asc ''gemini-1.5-flash-latest'', asc ''gemini-1.5-flash'', asc ''gemini-1.5-pro'']"

text \<open>
  The \<open>for\<close> loop of lines 288 to 299: \<open>Some analysis\<close> when it breaks with a result,
  \<open>None\<close> when it ends with \<open>analysis\<close> still undefined.
\<close>

fun tryAlternatives ::
  "world \<Rightarrow> jsstring \<Rightarrow> jsstring list \<Rightarrow> event list \<Rightarrow> AnalysisResult option \<times> event list" where
  "tryAlternatives W text [] log = (None, log)"
| "tryAlternatives W text (altModel # rest) log =
     (if altModel = GEMINI_MODEL W then tryAlternatives W text rest log
      else (case callGeminiAPI W text altModel 0 3 log of
              (Inr analysis, log') \<Rightarrow> (Some analysis, log')
            | (Inl altError, log') \<Rightarrow> tryAlternatives W text rest log'))"

definition notFound :: "jsstring \<Rightarrow> bool" where
  "notFound message \<longleftrightarrow>
     message \<noteq> [] \<and>
     (includes_str message (asc ''not found'') \<or> includes_str message (asc ''is not found''))"

text \<open>Lines 279 to 307: the call with the fallback to the alternative models.\<close>

definition analyzeWithFallback :: "world \<Rightarrow> jsstring \<Rightarrow> event list \<Rightarrow> settled \<times> event list" where
  "analyzeWithFallback W text log =
     (case callGeminiAPI W text (GEMINI_MODEL W) 0 3 log of
        (Inr analysis, log') \<Rightarrow> (Inr analysis, log')
      | (Inl message, log') \<Rightarrow>
          if notFound message
          then (case tryAlternatives W text alternativeModels log' of
                  (Some analysis, log'') \<Rightarrow> (Inr analysis, log'')
                | (None, log'') \<Rightarrow>
                    (Inl (asc ''All models failed. Check available models at /api/models or in server logs.''),
                     log''))
          else (Inl message, log'))"

text \<open>
  The handler, from the parsed request body to the response. The first test of line 264,
  \<open>!text || typeof text !== 'string' || text.trim().length === 0\<close>, holds for every
  value that is no string, for the empty string and for a string of white space only.
  Whatever the handler throws is answered with status 500 (lines 315 to 321).
\<close>

definition error500 :: "jsstring \<Rightarrow> http_response" where
  "error500 message =
     Json500 (if message \<noteq> [] then message
              else asc ''An error occurred while analyzing the text. Please try again.'')"

definition analyze :: "world \<Rightarrow> jsval \<Rightarrow> event list \<Rightarrow> http_response \<times> event list" where
  "analyze W body log =
     (case getProp body (asc ''text'') of
        Inl e \<Rightarrow> (error500 (TypeError_message W e), log)
      | Inr text \<Rightarrow>
          (case text of
             JStr t \<Rightarrow>
               if t = [] \<or> length (trim t) = 0
               then (Json400 (asc ''Please provide valid text to analyze''), log)
               else if length t > 10000
               then (Json400 (asc ''Text is too long. Maximum 10,000 characters allowed.''), log)
               else (case analyzeWithFallback W (trim t) log of
                       (Inr analysis, log') \<Rightarrow> (Json200 analysis, log')
                     | (Inl message, log') \<Rightarrow> (error500 message, log'))
           | _ \<Rightarrow> (Json400 (asc ''Please provide valid text to analyze''), log)))"

section \<open>Notions of the specification\<close>

text \<open>
  The generated text of a response, \<open>response.candidates[0].content.parts[0].text\<close>,
  with \<open>undefined\<close> wherever a step of the path is missing.
\<close>

definition candidateText :: "jsval \<Rightarrow> jsval" where
  "candidateText response =
     own (elem0 (own (own (elem0 (own response (asc ''candidates''))) (asc ''content''))
                     (asc ''parts'')))
         (asc ''text'')"

text \<open>
  Every model of a list, called in this order with a fresh retry count, fails: the log
  after the last call, and \<open>None\<close> as soon as one of the calls resolves.
\<close>

fun rejectedRun :: "world \<Rightarrow> jsstring \<Rightarrow> jsstring list \<Rightarrow> event list \<Rightarrow> event list option" where
  "rejectedRun W text [] log = Some log"
| "rejectedRun W text (m # ms) log =
     (case callGeminiAPI W text m 0 3 log of
        (Inl e, log') \<Rightarrow> rejectedRun W text ms log'
      | (Inr r, log') \<Rightarrow> None)"

section \<open>Concrete runs\<close>

text \<open>
  A world for running the program on concrete inputs: \<open>JSON.parse\<close> given by the table
  of the texts it is applied to in the run (it throws on every other text), and a remote
  provider that answers the n-th request with the n-th reply of a list (the connection
  fails after the last one).
\<close>

fun isRequest :: "event \<Rightarrow> bool" where
  "isRequest (Request m u) = True"
| "isRequest (Delay d) = False"

definition defaultModel :: jsstring where
  "defaultModel = asc ''gemma-3-27b-it''"

definition scripted :: "(jsstring \<times> jsval) list \<Rightarrow> reply list \<Rightarrow> world" where
  "scripted table replies =
     \<lparr> JSON_parse = (\<lambda>s. case map_of table s of
                               Some v \<Rightarrow> Inr v
                             | None \<Rightarrow> Inl (asc ''Unexpected token'')),
       TypeError_message = (\<lambda>e. asc ''TypeError''),
       remote = (\<lambda>log. case drop (length (filter isRequest log) - 1) replies of
                          r # rs \<Rightarrow> r
                        | [] \<Rightarrow> TransportError (asc ''socket hang up'')),
       GEMINI_MODEL = defaultModel \<rparr>"

text \<open>
  The body of a \<open>generateContent\<close> response whose candidate carries a text (a text in
  which only the quote and the backslash need an escape), and its parsed value.
\<close>

definition escaped :: "jsstring \<Rightarrow> jsstring" where
  "escaped s = concat (map (\<lambda>c. if c = 0x22 \<or> c = 0x5C then [0x5C, c] else [c]) s)"

definition generated :: "jsstring \<Rightarrow> jsstring" where
  \<open>generated t =
     asc ''{"candidates":[{"content":{"parts":[{"text":"'' @ escaped t @ asc ''"}]}}]}''\<close>

definition generatedValue :: "jsval \<Rightarrow> jsval" where
  "generatedValue t =
     JObj [(asc ''candidates'',
            JArr [JObj [(asc ''content'',
                         JObj [(asc ''parts'', JArr [JObj [(asc ''text'', t)]])])]])]"

definition plainText :: jsstring where
  "plainText = asc ''I feel fine today.''"

definition fullText :: jsstring where
  \<open>fullText = asc ''{"sentiment":"positive","themes":["work"],"tone":"upbeat","summary":"Expresses enjoyment of work."}''\<close>

definition fullValue :: jsval where
  "fullValue =
     JObj [(asc ''sentiment'', JStr (asc ''positive'')),
           (asc ''themes'', JArr [JStr (asc ''work'')]),
           (asc ''tone'', JStr (asc ''upbeat'')),
           (asc ''summary'', JStr (asc ''Expresses enjoyment of work.''))]"

definition blankText :: jsstring where
  \<open>blankText = asc ''{"sentiment":"","themes":["work"],"tone":"upbeat","summary":"Expresses enjoyment of work."}''\<close>

definition blankValue :: jsval where
  "blankValue =
     JObj [(asc ''sentiment'', JStr []),
           (asc ''themes'', JArr [JStr (asc ''work'')]),
           (asc ''tone'', JStr (asc ''upbeat'')),
           (asc ''summary'', JStr (asc ''Expresses enjoyment of work.''))]"

definition hollowText :: jsstring where
  \<open>hollowText = asc ''{"sentiment":"","themes":[],"tone":"","summary":""}''\<close>

definition hollowValue :: jsval where
  "hollowValue =
     JObj [(asc ''sentiment'', JStr []),
           (asc ''themes'', JArr []),
           (asc ''tone'', JStr []),
           (asc ''summary'', JStr [])]"

definition quotaBody :: jsstring where
  \<open>quotaBody = asc ''{"error":{"code":429,"message":"Resource has been exhausted","details":[{"retryDelay":"17s"}]}}''\<close>

definition quotaValue :: "jsval \<Rightarrow> jsval" where
  "quotaValue retryDelay =
     JObj [(asc ''error'',
            JObj [(asc ''code'', JNum (asc ''429'')),
                  (asc ''message'', JStr (asc ''Resource has been exhausted'')),
                  (asc ''details'', JArr [JObj [(asc ''retryDelay'', retryDelay)]])])]"

definition soonBody :: jsstring where
  \<open>soonBody = asc ''{"error":{"code":429,"message":"Resource has been exhausted","details":[{"retryDelay":"soon"}]}}''\<close>

definition missingBody :: jsstring where
  \<open>missingBody = asc ''{"error":{"code":404,"message":"models/gemma-3-27b-it is not found"}}''\<close>

definition missingValue :: jsval where
  "missingValue =
     JObj [(asc ''error'',
            JObj [(asc ''code'', JNum (asc ''404'')),
                  (asc ''message'', JStr (asc ''models/gemma-3-27b-it is not found''))])]"

definition user :: jsstring where
  "user = asc ''I love my job''"

definition fullWorld :: world where
  "fullWorld =
     scripted [(generated fullText, generatedValue (JStr fullText)), (fullText, fullValue)]
              [Http 200 (generated fullText)]"

definition blankWorld :: world where
  "blankWorld =
     scripted [(generated blankText, generatedValue (JStr blankText)), (blankText, blankValue)]
              [Http 200 (generated blankText)]"

definition hollowWorld :: world where
  "hollowWorld =
     scripted [(generated hollowText, generatedValue (JStr hollowText)), (hollowText, hollowValue)]
              [Http 200 (generated hollowText)]"

definition plainWorld :: world where
  "plainWorld =
     scripted [(generated plainText, generatedValue (JStr plainText))]
              [Http 200 (generated plainText)]"

definition emptyObjectWorld :: world where
  "emptyObjectWorld =
     scripted [(generated (asc ''{}''), generatedValue (JStr (asc ''{}''))), (asc ''{}'', JObj [])]
              [Http 200 (generated (asc ''{}''))]"

definition soonWorld :: world where
  "soonWorld =
     scripted [(soonBody, quotaValue (JStr (asc ''soon''))),
               (generated plainText, generatedValue (JStr plainText))]
              [Http 429 soonBody, Http 200 (generated plainText)]"

definition quotaWorld :: world where
  "quotaWorld = scripted [(quotaBody, quotaValue (JStr (asc ''17s'')))] [Http 429 quotaBody]"

definition fallbackWorld :: world where
  "fallbackWorld =
     scripted [(missingBody, missingValue),
               (generated fullText, generatedValue (JStr fullText)), (fullText, fullValue)]
              [Http 404 missingBody, Http 200 (generated fullText)]"

definition missingWorld :: world where
  "missingWorld = scripted [(missingBody, missingValue)] [Http 404 missingBody]"

definition noCandidatesWorld :: world where
  "noCandidatesWorld = scripted [(asc ''{}'', JObj [])] [Http 200 (asc ''{}'')]"

definition htmlWorld :: world where
  "htmlWorld = scripted [] [Http 429 (asc ''<html>Too Many Requests</html>'')]"

section \<open>Properties\<close>

subsection \<open>The cases of a call\<close>

lemma call_TransportError:
  "remote W (log @ [Request m u]) = TransportError e \<Longrightarrow>
   callGeminiAPI W u m rc mr log = (Inl (asc ''Request failed: '' @ e), log @ [Request m u])"
  by (subst callGeminiAPI.simps) simp

lemma call_SyntaxError:
  "remote W (log @ [Request m u]) = Http st data \<Longrightarrow> JSON_parse W data = Inl e \<Longrightarrow>
   callGeminiAPI W u m rc mr log =
     (Inl (asc ''Failed to parse API response: '' @ e), log @ [Request m u])"
  by (subst callGeminiAPI.simps) (simp add: caught_def)

lemma call_retry:
  "remote W (log @ [Request m u]) = Http 429 data \<Longrightarrow> JSON_parse W data = Inr response \<Longrightarrow>
   rc < mr \<Longrightarrow>
   callGeminiAPI W u m rc mr log =
     callGeminiAPI W u m (Suc rc) mr (log @ [Request m u, Delay (extractRetryDelay response)])"
  by (subst callGeminiAPI.simps) simp

lemma call_other:
  "remote W (log @ [Request m u]) = Http st data \<Longrightarrow> JSON_parse W data = Inr response \<Longrightarrow>
   st \<noteq> 200 \<Longrightarrow> st = 429 \<longrightarrow> mr \<le> rc \<Longrightarrow>
   callGeminiAPI W u m rc mr log = (caught W (onOtherStatus st response), log @ [Request m u])"
  by (subst callGeminiAPI.simps) auto

lemma call_200:
  "remote W (log @ [Request m u]) = Http 200 data \<Longrightarrow> JSON_parse W data = Inr response \<Longrightarrow>
   callGeminiAPI W u m rc mr log = (caught W (onStatus200 W response), log @ [Request m u])"
  by (subst callGeminiAPI.simps) simp

subsection \<open>Values and strings\<close>

lemma own_truthy: "truthy (own v k) \<Longrightarrow> \<exists>kvs. v = JObj kvs"
  by (cases v) simp_all

lemma own_string: "own v k = JStr t \<Longrightarrow> \<exists>kvs. v = JObj kvs"
  by (cases v) simp_all

lemma elem0_object: "elem0 v = JObj kvs \<Longrightarrow> truthy v"
  by (cases v) (auto split: list.splits)

lemma substring0_nonempty: "t \<noteq> [] \<Longrightarrow> 0 < n \<Longrightarrow> substring0 t n \<noteq> []"
  by (cases t) (simp_all add: substring0_def take_Cons')

lemma truthy_or_else: "truthy b \<Longrightarrow> truthy (or_else a b)"
  by (simp add: or_else_def)

lemma startsWith_iff: "startsWith s p \<longleftrightarrow> (\<exists>post. s = p @ post)"
proof
  assume "startsWith s p"
  then have "s = p @ drop (length p) s"
    by (metis append_take_drop_id startsWith_def)
  then show "\<exists>post. s = p @ post" ..
next
  assume "\<exists>post. s = p @ post"
  then show "startsWith s p"
    by (auto simp: startsWith_def)
qed

lemma includes_str_iff: "includes_str s p \<longleftrightarrow> (\<exists>pre post. s = pre @ p @ post)"
proof (induction s)
  case Nil
  show ?case by auto
next
  case (Cons c cs)
  show ?case
  proof
    assume "includes_str (c # cs) p"
    then consider "startsWith (c # cs) p" | "includes_str cs p"
      by auto
    then show "\<exists>pre post. c # cs = pre @ p @ post"
    proof cases
      case 1
      then obtain post where "c # cs = p @ post"
        using startsWith_iff by blast
      then have "c # cs = [] @ p @ post"
        by simp
      then show ?thesis by blast
    next
      case 2
      with Cons.IH obtain pre post where "cs = pre @ p @ post"
        by blast
      then have "c # cs = (c # pre) @ p @ post"
        by simp
      then show ?thesis by blast
    qed
  next
    assume "\<exists>pre post. c # cs = pre @ p @ post"
    then obtain pre post where eq: "c # cs = pre @ p @ post"
      by blast
    show "includes_str (c # cs) p"
    proof (cases pre)
      case Nil
      with eq have "startsWith (c # cs) p"
        using startsWith_iff by auto
      then show ?thesis by simp
    next
      case (Cons d pre')
      with eq have "cs = pre' @ p @ post"
        by simp
      with Cons.IH show ?thesis
        by auto
    qed
  qed
qed

lemma notFound_iff: "notFound message \<longleftrightarrow> includes_str message (asc ''not found'')"
proof -
  have split: "asc ''is not found'' = asc ''is '' @ asc ''not found''"
    by (simp add: asc_def)
  have "includes_str message (asc ''not found'')" if "includes_str message (asc ''is not found'')"
  proof -
    from that obtain pre post where "message = pre @ (asc ''is '' @ asc ''not found'') @ post"
      unfolding includes_str_iff split by blast
    then have "message = (pre @ asc ''is '') @ asc ''not found'' @ post"
      by simp
    then show ?thesis
      unfolding includes_str_iff by blast
  qed
  moreover have "message \<noteq> []" if "includes_str message (asc ''not found'')"
    using that by (cases message) (simp_all add: asc_def)
  ultimately show ?thesis
    by (auto simp: notFound_def)
qed

subsection \<open>The generated text and its normalisation\<close>

lemma normalized_populated:
  assumes "normalized analysis t = Inr r" and "t \<noteq> []"
  shows "truthy (sentiment r) \<and> isArray (themes r) \<and> truthy (tone r) \<and> truthy (summary r)"
  using assms substring0_nonempty [of t 200]
  by (auto simp: normalized_def getProp_def truthy_or_else asc_def split: if_splits)

lemma fallback_populated:
  "t \<noteq> [] \<Longrightarrow> truthy (sentiment (fallback t)) \<and> isArray (themes (fallback t)) \<and>
     truthy (tone (fallback t)) \<and> truthy (summary (fallback t))"
  using substring0_nonempty [of t 500] by (simp add: fallback_def asc_def)

lemma parseAnalysis_populated:
  assumes "t \<noteq> []"
  shows "truthy (sentiment (parseAnalysis W t)) \<and> isArray (themes (parseAnalysis W t)) \<and>
         truthy (tone (parseAnalysis W t)) \<and> truthy (summary (parseAnalysis W t))"
  using assms normalized_populated [of _ t] fallback_populated [of t]
  by (auto simp: parseAnalysis_def split: sum.splits)

lemma onOtherStatus_rejects: "\<exists>message. caught W (onOtherStatus st response) = Inl message"
  by (auto simp: caught_def onOtherStatus_def Let_def split: sum.splits)

lemma onStatus200_resolves:
  assumes "caught W (onStatus200 W response) = Inr r"
  shows "\<exists>t. t \<noteq> [] \<and> candidateText response = JStr t \<and> r = parseAnalysis W t"
  using assms
  by (auto simp: caught_def onStatus200_def candidateText_def getProp_def Let_def
           split: sum.splits if_splits jsval.splits)

text \<open>A response that carries a non-empty generated text is resolved from that text.\<close>

lemma onStatus200_text:
  assumes ct: "candidateText response = JStr t" and "t \<noteq> []"
  shows "caught W (onStatus200 W response) = Inr (parseAnalysis W t)"
proof -
  let ?candidates = "own response (asc ''candidates'')"
  let ?candidate = "elem0 ?candidates"
  let ?content = "own ?candidate (asc ''content'')"
  let ?parts = "own ?content (asc ''parts'')"
  let ?part = "elem0 ?parts"
  from ct have t: "own ?part (asc ''text'') = JStr t"
    by (simp add: candidateText_def)
  then obtain p where part: "?part = JObj p"
    using own_string by blast
  then have parts: "truthy ?parts"
    by (rule elem0_object)
  then obtain c where content: "?content = JObj c"
    using own_truthy by blast
  then have "truthy ?content"
    by simp
  then obtain d where candidate: "?candidate = JObj d"
    using own_truthy by blast
  then have candidates: "truthy ?candidates"
    by (rule elem0_object)
  then obtain e where response: "response = JObj e"
    using own_truthy by blast
  have "onStatus200 W response = Inr (Inr (parseAnalysis W t))"
    unfolding onStatus200_def getProp_def Let_def
    using response candidates candidate content parts part t \<open>t \<noteq> []\<close>
    by simp
  then show ?thesis
    by (simp add: caught_def)
qed

lemma onStatus200_no_text:
  assumes "\<forall>t. candidateText response = JStr t \<longrightarrow> t = []"
  shows "\<exists>message.
           caught W (onStatus200 W response) = Inl message \<and>
           (message = asc ''Invalid response format: missing candidates'' \<or>
            message = asc ''Invalid response format: missing content.parts'' \<or>
            message = asc ''Empty response from Gemini API'' \<or>
            (\<exists>e. message = asc ''Failed to parse API response: '' @ TypeError_message W e))"
proof (cases "caught W (onStatus200 W response)")
  case (Inr r)
  from onStatus200_resolves [OF this] assms show ?thesis
    by auto
next
  case (Inl message)
  then have "message = asc ''Invalid response format: missing candidates'' \<or>
             message = asc ''Invalid response format: missing content.parts'' \<or>
             message = asc ''Empty response from Gemini API'' \<or>
             (\<exists>e. message = asc ''Failed to parse API response: '' @ TypeError_message W e)"
    by (auto simp: caught_def onStatus200_def getProp_def Let_def
             split: sum.splits if_splits jsval.splits)
  with Inl show ?thesis
    by simp
qed

subsection \<open>The events of a call\<close>

lemma callGeminiAPI_log:
  "\<exists>rest. snd (callGeminiAPI W u m rc mr log) = log @ Request m u # rest"
proof (induction W u m rc mr log rule: callGeminiAPI.induct)
  case (1 W userText modelName retryCount maxRetries log)
  let ?sent = "log @ [Request modelName userText]"
  show ?case
  proof (cases "remote W ?sent")
    case (TransportError e)
    then show ?thesis
      by (simp add: call_TransportError)
  next
    case (Http statusCode data)
    show ?thesis
    proof (cases "JSON_parse W data")
      case (Inl e)
      with Http show ?thesis
        by (simp add: call_SyntaxError)
    next
      case (Inr response)
      consider (retry) "statusCode = 429" "retryCount < maxRetries"
        | (other) "statusCode \<noteq> 200" "statusCode = 429 \<longrightarrow> maxRetries \<le> retryCount"
        | (ok) "statusCode = 200"
        by fastforce
      then show ?thesis
      proof cases
        case retry
        with "1.IH" [OF refl Http Inr] Http Inr show ?thesis
          by (auto simp: call_retry)
      next
        case other
        with Http Inr show ?thesis
          by (simp add: call_other)
      next
        case ok
        with Http Inr show ?thesis
          by (simp add: call_200)
      qed
    qed
  qed
qed

text \<open>
  A call chain is bounded: a call sends at most one request more than it has retries
  left, and waits once between two requests.
\<close>

lemma callGeminiAPI_attempts:
  "\<exists>new. snd (callGeminiAPI W u m rc mr log) = log @ new \<and>
         length (filter isRequest new) \<le> Suc (mr - rc) \<and>
         Suc (length (filter (\<lambda>ev. \<not> isRequest ev) new)) = length (filter isRequest new)"
proof (induction W u m rc mr log rule: callGeminiAPI.induct)
  case (1 W userText modelName retryCount maxRetries log)
  let ?sent = "log @ [Request modelName userText]"
  have single: ?case if "snd (callGeminiAPI W userText modelName retryCount maxRetries log) = ?sent"
    using that by (intro exI [of _ "[Request modelName userText]"]) simp
  show ?case
  proof (cases "remote W ?sent")
    case (TransportError e)
    then show ?thesis
      by (intro single) (simp add: call_TransportError)
  next
    case (Http statusCode data)
    show ?thesis
    proof (cases "JSON_parse W data")
      case (Inl e)
      with Http show ?thesis
        by (intro single) (simp add: call_SyntaxError)
    next
      case (Inr response)
      consider (retry) "statusCode = 429" "retryCount < maxRetries"
        | (other) "statusCode \<noteq> 200" "statusCode = 429 \<longrightarrow> maxRetries \<le> retryCount"
        | (ok) "statusCode = 200"
        by fastforce
      then show ?thesis
      proof cases
        case retry
        let ?d = "Delay (extractRetryDelay response)"
        from "1.IH" [OF refl Http Inr] retry obtain new where
          new: "snd (callGeminiAPI W userText modelName (retryCount + 1) maxRetries (?sent @ [?d])) =
                  (?sent @ [?d]) @ new"
            "length (filter isRequest new) \<le> Suc (maxRetries - (retryCount + 1))"
            "Suc (length (filter (\<lambda>ev. \<not> isRequest ev) new)) = length (filter isRequest new)"
          by auto
        have "snd (callGeminiAPI W userText modelName retryCount maxRetries log) =
                log @ (Request modelName userText # ?d # new)"
          using new(1) Http Inr retry by (simp add: call_retry)
        moreover have "length (filter isRequest (Request modelName userText # ?d # new))
                         \<le> Suc (maxRetries - retryCount)"
          using new(2) retry(2) by simp
        moreover have "Suc (length (filter (\<lambda>ev. \<not> isRequest ev) (Request modelName userText # ?d # new))) =
                         length (filter isRequest (Request modelName userText # ?d # new))"
          using new(3) by simp
        ultimately show ?thesis
          by blast
      next
        case other
        with Http Inr show ?thesis
          by (intro single) (simp add: call_other)
      next
        case ok
        with Http Inr show ?thesis
          by (intro single) (simp add: call_200)
      qed
    qed
  qed
qed

text \<open>
  A provider that answers every request with the same parsable 429 payload: counted from
  \<open>retryCount\<close>, the call makes \<open>maxRetries - retryCount\<close> retries, each after one
  delay, and the request after the last retry is rejected.
\<close>

lemma callGeminiAPI_always_429:
  assumes "\<And>log. remote W log = Http 429 data" and "JSON_parse W data = Inr response"
  shows "callGeminiAPI W u m rc mr log =
           (caught W (onOtherStatus 429 response),
            log @ concat (replicate (mr - rc) [Request m u, Delay (extractRetryDelay response)])
                @ [Request m u])"
proof (induction "mr - rc" arbitrary: rc log)
  case 0
  then have "mr \<le> rc"
    by simp
  with call_other [OF assms(1) assms(2), where rc = rc and mr = mr] 0 show ?case
    by simp
next
  case (Suc n)
  then have less: "rc < mr" and n: "n = mr - Suc rc"
    by simp_all
  let ?step = "[Request m u, Delay (extractRetryDelay response)]"
  have "callGeminiAPI W u m rc mr log = callGeminiAPI W u m (Suc rc) mr (log @ ?step)"
    using call_retry [OF assms(1) assms(2) less] by simp
  also have "\<dots> = (caught W (onOtherStatus 429 response),
                   (log @ ?step) @ concat (replicate (mr - Suc rc) ?step) @ [Request m u])"
    using Suc.hyps(1) [OF n] .
  also have "(log @ ?step) @ concat (replicate (mr - Suc rc) ?step) @ [Request m u] =
             log @ concat (replicate (mr - rc) ?step) @ [Request m u]"
    using Suc.hyps(2) n by (metis append.assoc concat.simps(2) replicate_Suc)
  finally show ?case .
qed

subsection \<open>The fallback to the alternative models\<close>

lemma tryAlternatives_all_rejected:
  "rejectedRun W text (filter (\<lambda>a. a \<noteq> GEMINI_MODEL W) ms) log = Some log' \<Longrightarrow>
   tryAlternatives W text ms log = (None, log')"
  by (induction ms arbitrary: log) (auto split: prod.splits sum.splits if_splits)

lemma tryAlternatives_first_success:
  "filter (\<lambda>a. a \<noteq> GEMINI_MODEL W) ms = pre @ m # post \<Longrightarrow>
   rejectedRun W text pre log = Some log1 \<Longrightarrow>
   callGeminiAPI W text m 0 3 log1 = (Inr r, log2) \<Longrightarrow>
   tryAlternatives W text ms log = (Some r, log2)"
proof (induction ms arbitrary: pre log)
  case Nil
  then show ?case by simp
next
  case (Cons a ms)
  show ?case
  proof (cases "a = GEMINI_MODEL W")
    case True
    with Cons show ?thesis by simp
  next
    case False
    with Cons.prems(1) have eq: "a # filter (\<lambda>a. a \<noteq> GEMINI_MODEL W) ms = pre @ m # post"
      by simp
    show ?thesis
    proof (cases pre)
      case Nil
      with eq Cons.prems False show ?thesis
        by simp
    next
      case (Cons b pre')
      with eq have b: "b = a" and rest: "filter (\<lambda>a. a \<noteq> GEMINI_MODEL W) ms = pre' @ m # post"
        by simp_all
      from Cons.prems(2) Cons b obtain e log' where
        first: "callGeminiAPI W text a 0 3 log = (Inl e, log')" and
        run: "rejectedRun W text pre' log' = Some log1"
        by (auto split: prod.splits sum.splits)
      from Cons.IH [OF rest run Cons.prems(3)] first False show ?thesis
        by simp
    qed
  qed
qed

text \<open>
  The two outcomes of a run over a list of models cover every case: all of them fail, or
  there is a first one that resolves.
\<close>

lemma rejectedRun_cases:
  "(\<exists>log'. rejectedRun W u ms log = Some log') \<or>
   (\<exists>pre m post log1 r log2.
      ms = pre @ m # post \<and> rejectedRun W u pre log = Some log1 \<and>
      callGeminiAPI W u m 0 3 log1 = (Inr r, log2))"
proof (induction ms arbitrary: log)
  case Nil
  show ?case by simp
next
  case (Cons a ms)
  obtain res log' where call: "callGeminiAPI W u a 0 3 log = (res, log')"
    by (cases "callGeminiAPI W u a 0 3 log")
  show ?case
  proof (cases res)
    case (Inr r)
    with call have "a # ms = [] @ a # ms \<and> rejectedRun W u [] log = Some log \<and>
                    callGeminiAPI W u a 0 3 log = (Inr r, log')"
      by simp
    then show ?thesis
      by blast
  next
    case (Inl e)
    with call have step: "rejectedRun W u (a # pre) log = rejectedRun W u pre log'" for pre
      by simp
    from Cons.IH [of log'] show ?thesis
    proof
      assume "\<exists>log''. rejectedRun W u ms log' = Some log''"
      with step show ?thesis
        by simp
    next
      assume "\<exists>pre m post log1 r log2.
                ms = pre @ m # post \<and> rejectedRun W u pre log' = Some log1 \<and>
                callGeminiAPI W u m 0 3 log1 = (Inr r, log2)"
      then obtain pre m post log1 r log2 where
        "ms = pre @ m # post" "rejectedRun W u pre log' = Some log1"
        "callGeminiAPI W u m 0 3 log1 = (Inr r, log2)"
        by blast
      with step have "a # ms = (a # pre) @ m # post \<and> rejectedRun W u (a # pre) log = Some log1 \<and>
                      callGeminiAPI W u m 0 3 log1 = (Inr r, log2)"
        by simp
      then show ?thesis
        by blast
    qed
  qed
qed

lemma tryAlternatives_log: "\<exists>rest. snd (tryAlternatives W u ms log) = log @ rest"
proof (induction ms arbitrary: log)
  case Nil
  show ?case by simp
next
  case (Cons a ms)
  show ?case
  proof (cases "a = GEMINI_MODEL W")
    case True
    with Cons.IH show ?thesis by simp
  next
    case False
    obtain res log' where call: "callGeminiAPI W u a 0 3 log = (res, log')"
      by (cases "callGeminiAPI W u a 0 3 log")
    with callGeminiAPI_log [of W u a 0 3 log] obtain rest where log': "log' = log @ Request a u # rest"
      by auto
    show ?thesis
    proof (cases res)
      case (Inl e)
      with Cons.IH [of log'] call False log' show ?thesis
        by auto
    next
      case (Inr r)
      with call False log' show ?thesis
        by simp
    qed
  qed
qed

lemma analyzeWithFallback_log:
  "\<exists>rest. snd (analyzeWithFallback W u log) = log @ Request (GEMINI_MODEL W) u # rest"
proof -
  obtain res log' where call: "callGeminiAPI W u (GEMINI_MODEL W) 0 3 log = (res, log')"
    by (cases "callGeminiAPI W u (GEMINI_MODEL W) 0 3 log")
  with callGeminiAPI_log [of W u "GEMINI_MODEL W" 0 3 log]
  obtain rest where log': "log' = log @ Request (GEMINI_MODEL W) u # rest"
    by auto
  obtain rest' where "snd (tryAlternatives W u alternativeModels log') = log' @ rest'"
    using tryAlternatives_log by blast
  with call log' show ?thesis
    by (auto simp: analyzeWithFallback_def split: sum.splits prod.splits option.splits)
qed

subsection \<open>Facts about the concrete runs\<close>

lemma scripted_first: "remote (scripted table (r # rs)) [Request m u] = r"
  by (simp add: scripted_def)

lemma scripted_second:
  "remote (scripted table (r1 # r2 # rs)) [Request m1 u1, Request m2 u2] = r2"
  by (simp add: scripted_def)

lemma scripted_second_delayed:
  "remote (scripted table (r1 # r2 # rs)) [Request m1 u1, Delay d, Request m2 u2] = r2"
  by (simp add: scripted_def)

lemma scripted_parse:
  "JSON_parse (scripted table replies) s =
     (case map_of table s of Some v \<Rightarrow> Inr v | None \<Rightarrow> Inl (asc ''Unexpected token''))"
  by (simp add: scripted_def)

lemma candidateText_generatedValue: "candidateText (generatedValue v) = v"
  by (simp add: candidateText_def generatedValue_def asc_def)

lemma stripFences_fullText: "stripFences fullText = fullText"
  by (simp add: stripFences_def fullText_def asc_def trim_def isWhiteSpace_def startsWith_def
        fence_def)

lemma fullText_neq: "generated fullText \<noteq> fullText"
  by (simp add: generated_def fullText_def asc_def)

lemma fullText_nonempty: "fullText \<noteq> []"
  by (simp add: fullText_def asc_def)

lemma fullWorld_run:
  "callGeminiAPI fullWorld user defaultModel 0 3 [] =
     (Inr \<lparr> sentiment = JStr (asc ''positive''), themes = JArr [JStr (asc ''work'')],
            tone = JStr (asc ''upbeat''),
            summary = JStr (asc ''Expresses enjoyment of work.'') \<rparr>,
      [Request defaultModel user])"
proof -
  have reply: "remote fullWorld ([] @ [Request defaultModel user]) = Http 200 (generated fullText)"
    by (simp add: fullWorld_def scripted_first)
  have body: "JSON_parse fullWorld (generated fullText) = Inr (generatedValue (JStr fullText))"
    by (simp add: fullWorld_def scripted_parse)
  have inner: "JSON_parse fullWorld fullText = Inr fullValue"
    using fullText_neq by (simp add: fullWorld_def scripted_parse)
  have "parseAnalysis fullWorld fullText =
     \<lparr> sentiment = JStr (asc ''positive''), themes = JArr [JStr (asc ''work'')],
       tone = JStr (asc ''upbeat''), summary = JStr (asc ''Expresses enjoyment of work.'') \<rparr>"
    by (simp add: parseAnalysis_def stripFences_fullText inner normalized_def getProp_def
          fullValue_def or_else_def asc_def)
  with call_200 [OF reply body, of 0 3]
    onStatus200_text [OF candidateText_generatedValue fullText_nonempty, of fullWorld]
  show ?thesis
    by simp
qed

lemma stripFences_plainText: "stripFences plainText = plainText"
  by (simp add: stripFences_def plainText_def asc_def trim_def isWhiteSpace_def startsWith_def
        fence_def)

lemma plainText_nonempty: "plainText \<noteq> []"
  by (simp add: plainText_def asc_def)

lemma plainText_neq: "generated plainText \<noteq> plainText"
  by (simp add: generated_def plainText_def asc_def)

lemma emptyObject_facts:
  "generated (asc ''{}'') \<noteq> asc ''{}''" "asc ''{}'' \<noteq> []"
  "stripFences (asc ''{}'') = asc ''{}''" "take 200 (asc ''{}'') = asc ''{}''"
  by (simp_all add: generated_def asc_def stripFences_def trim_def isWhiteSpace_def
        startsWith_def fence_def)

section \<open>The claims\<close>

subsection \<open>The shape of a resolved result\<close>

text \<open>
  C1. Whatever \<open>callGeminiAPI\<close> resolves with has all four fields populated: sentiment,
  tone and summary are truthy (so none of them is \<open>undefined\<close>, \<open>null\<close> or the empty
  string) and themes is an array. This holds on every path that resolves, with the
  generated text parsed or not.
\<close>

theorem C1_resolved_fields_populated:
  assumes "callGeminiAPI W userText modelName retryCount maxRetries log = (Inr r, log')"
  shows "truthy (sentiment r) \<and> isArray (themes r) \<and> truthy (tone r) \<and> truthy (summary r)"
  using assms
proof (induction W userText modelName retryCount maxRetries log rule: callGeminiAPI.induct)
  case (1 W userText modelName retryCount maxRetries log)
  let ?sent = "log @ [Request modelName userText]"
  show ?case
  proof (cases "remote W ?sent")
    case (TransportError e)
    with "1.prems" show ?thesis
      by (simp add: call_TransportError)
  next
    case (Http statusCode data)
    show ?thesis
    proof (cases "JSON_parse W data")
      case (Inl e)
      with Http "1.prems" show ?thesis
        by (simp add: call_SyntaxError)
    next
      case (Inr response)
      consider (retry) "statusCode = 429" "retryCount < maxRetries"
        | (other) "statusCode \<noteq> 200" "statusCode = 429 \<longrightarrow> maxRetries \<le> retryCount"
        | (ok) "statusCode = 200"
        by fastforce
      then show ?thesis
      proof cases
        case retry
        have "callGeminiAPI W userText modelName (retryCount + 1) maxRetries
                (?sent @ [Delay (extractRetryDelay response)]) = (Inr r, log')"
          using "1.prems" Http Inr retry by (simp add: call_retry)
        with "1.IH" [OF refl Http Inr] retry show ?thesis
          by simp
      next
        case other
        with "1.prems" Http Inr onOtherStatus_rejects [of W statusCode response] show ?thesis
          by (auto simp: call_other)
      next
        case ok
        with "1.prems" Http Inr have "caught W (onStatus200 W response) = Inr r"
          by (simp add: call_200)
        from onStatus200_resolves [OF this] parseAnalysis_populated show ?thesis
          by blast
      qed
    qed
  qed
qed

theorem C1_witness:
  "callGeminiAPI fullWorld user defaultModel 0 3 [] =
     (Inr \<lparr> sentiment = JStr (asc ''positive''), themes = JArr [JStr (asc ''work'')],
            tone = JStr (asc ''upbeat''),
            summary = JStr (asc ''Expresses enjoyment of work.'') \<rparr>,
      [Request defaultModel user]) \<and>
   truthy (JStr (asc ''positive'')) \<and> isArray (JArr [JStr (asc ''work'')]) \<and>
   truthy (JStr (asc ''upbeat'')) \<and> truthy (JStr (asc ''Expresses enjoyment of work.''))"
  using fullWorld_run C1_resolved_fields_populated [OF fullWorld_run]
  by simp

text \<open>
  C2. A 200 response whose generated text is a non-empty string that \<open>JSON.parse\<close>
  rejects (after the markdown fence is stripped) makes \<open>callGeminiAPI\<close> resolve, with
  exactly the fallback result: sentiment "neutral", no themes, tone "mixed" and the first
  500 code units of the raw text as summary.
\<close>

theorem C2_unparsable_text_resolves_fallback:
  assumes "remote W (log @ [Request modelName userText]) = Http 200 data"
    and "JSON_parse W data = Inr response"
    and "candidateText response = JStr t"
    and "t \<noteq> []"
    and "JSON_parse W (stripFences t) = Inl e"
  shows "callGeminiAPI W userText modelName retryCount maxRetries log =
           (Inr \<lparr> sentiment = JStr (asc ''neutral''), themes = JArr [],
                  tone = JStr (asc ''mixed''), summary = JStr (take 500 t) \<rparr>,
            log @ [Request modelName userText])"
proof -
  have "parseAnalysis W t = fallback t"
    using assms(5) by (simp add: parseAnalysis_def)
  with call_200 [OF assms(1,2)] onStatus200_text [OF assms(3,4)] show ?thesis
    by (simp add: fallback_def substring0_def)
qed

theorem C2_witness:
  "remote plainWorld ([] @ [Request defaultModel user]) = Http 200 (generated plainText) \<and>
   JSON_parse plainWorld (generated plainText) = Inr (generatedValue (JStr plainText)) \<and>
   candidateText (generatedValue (JStr plainText)) = JStr plainText \<and>
   plainText \<noteq> [] \<and>
   JSON_parse plainWorld (stripFences plainText) = Inl (asc ''Unexpected token'') \<and>
   callGeminiAPI plainWorld user defaultModel 0 3 [] =
     (Inr \<lparr> sentiment = JStr (asc ''neutral''), themes = JArr [],
            tone = JStr (asc ''mixed''), summary = JStr (asc ''I feel fine today.'') \<rparr>,
      [Request defaultModel user])"
proof -
  have reply: "remote plainWorld ([] @ [Request defaultModel user]) = Http 200 (generated plainText)"
    by (simp add: plainWorld_def scripted_first)
  have body: "JSON_parse plainWorld (generated plainText) = Inr (generatedValue (JStr plainText))"
    by (simp add: plainWorld_def scripted_parse)
  have inner: "JSON_parse plainWorld (stripFences plainText) = Inl (asc ''Unexpected token'')"
    using plainText_neq by (simp add: stripFences_plainText plainWorld_def scripted_parse)
  have "take 500 plainText = asc ''I feel fine today.''"
    by (simp add: plainText_def asc_def)
  with C2_unparsable_text_resolves_fallback
         [OF reply body candidateText_generatedValue plainText_nonempty inner, of 0 3]
    reply body inner plainText_nonempty
  show ?thesis
    by (simp add: candidateText_generatedValue)
qed

text \<open>
  C3. A 200 response whose generated text parses as a JSON object is normalised field by
  field: a missing sentiment becomes "neutral", themes that are missing or no array
  become the empty array, a missing tone becomes "Not specified" and a missing summary
  becomes the first 200 code units of the raw text.
\<close>

theorem C3_missing_fields_defaulted:
  assumes "remote W (log @ [Request modelName userText]) = Http 200 data"
    and "JSON_parse W data = Inr response"
    and "candidateText response = JStr t"
    and "t \<noteq> []"
    and "JSON_parse W (stripFences t) = Inr (JObj kvs)"
  shows "\<exists>r. callGeminiAPI W userText modelName retryCount maxRetries log =
               (Inr r, log @ [Request modelName userText]) \<and>
             (map_of kvs (asc ''sentiment'') = None \<longrightarrow> sentiment r = JStr (asc ''neutral'')) \<and>
             ((\<forall>xs. map_of kvs (asc ''themes'') \<noteq> Some (JArr xs)) \<longrightarrow> themes r = JArr []) \<and>
             (map_of kvs (asc ''tone'') = None \<longrightarrow> tone r = JStr (asc ''Not specified'')) \<and>
             (map_of kvs (asc ''summary'') = None \<longrightarrow> summary r = JStr (take 200 t))"
proof -
  let ?r = "parseAnalysis W t"
  have run: "callGeminiAPI W userText modelName retryCount maxRetries log =
               (Inr ?r, log @ [Request modelName userText])"
    using call_200 [OF assms(1,2)] onStatus200_text [OF assms(3,4)] by simp
  have r: "?r =
     \<lparr> sentiment = or_else (own (JObj kvs) (asc ''sentiment'')) (JStr (asc ''neutral'')),
       themes = (if isArray (own (JObj kvs) (asc ''themes''))
                 then own (JObj kvs) (asc ''themes'') else JArr []),
       tone = or_else (own (JObj kvs) (asc ''tone'')) (JStr (asc ''Not specified'')),
       summary = or_else (own (JObj kvs) (asc ''summary'')) (JStr (take 200 t)) \<rparr>"
    using assms(5) by (simp add: parseAnalysis_def normalized_def getProp_def substring0_def)
  have f1: "map_of kvs (asc ''sentiment'') = None \<longrightarrow> sentiment ?r = JStr (asc ''neutral'')"
    by (simp add: r or_else_def)
  have f2: "(\<forall>xs. map_of kvs (asc ''themes'') \<noteq> Some (JArr xs)) \<longrightarrow> themes ?r = JArr []"
  proof
    assume none: "\<forall>xs. map_of kvs (asc ''themes'') \<noteq> Some (JArr xs)"
    then have "\<not> isArray (own (JObj kvs) (asc ''themes''))"
      by (cases "map_of kvs (asc ''themes'')") (auto elim: isArray.elims)
    then show "themes ?r = JArr []"
      by (simp add: r)
  qed
  have f3: "map_of kvs (asc ''tone'') = None \<longrightarrow> tone ?r = JStr (asc ''Not specified'')"
    by (simp add: r or_else_def)
  have f4: "map_of kvs (asc ''summary'') = None \<longrightarrow> summary ?r = JStr (take 200 t)"
    by (simp add: r or_else_def)
  show ?thesis
    by (rule exI [of _ ?r]) (intro conjI run f1 f2 f3 f4)
qed

theorem C3_witness:
  "\<exists>r. callGeminiAPI emptyObjectWorld user defaultModel 0 3 [] =
          (Inr r, [Request defaultModel user]) \<and>
        sentiment r = JStr (asc ''neutral'') \<and> themes r = JArr [] \<and>
        tone r = JStr (asc ''Not specified'') \<and> summary r = JStr (asc ''{}'')"
proof -
  have reply: "remote emptyObjectWorld ([] @ [Request defaultModel user]) =
                 Http 200 (generated (asc ''{}''))"
    by (simp add: emptyObjectWorld_def scripted_first)
  have body: "JSON_parse emptyObjectWorld (generated (asc ''{}'')) =
                Inr (generatedValue (JStr (asc ''{}'')))"
    by (simp add: emptyObjectWorld_def scripted_parse)
  have inner: "JSON_parse emptyObjectWorld (stripFences (asc ''{}'')) = Inr (JObj [])"
    using emptyObject_facts(1) by (simp add: emptyObject_facts(3) emptyObjectWorld_def scripted_parse)
  from C3_missing_fields_defaulted
         [OF reply body candidateText_generatedValue emptyObject_facts(2) inner, of 0 3]
  show ?thesis
    by (simp add: emptyObject_facts(4))
qed

text \<open>
  C4 (as stated). A generated text with all four fields is not always returned
  unchanged: a field that is present but falsy, here the empty string as sentiment, is
  replaced by its default.
\<close>

theorem C4_counterexample:
  "remote blankWorld ([] @ [Request defaultModel user]) = Http 200 (generated blankText) \<and>
   JSON_parse blankWorld (generated blankText) = Inr (generatedValue (JStr blankText)) \<and>
   candidateText (generatedValue (JStr blankText)) = JStr blankText \<and>
   JSON_parse blankWorld (stripFences blankText) = Inr blankValue \<and>
   own blankValue (asc ''sentiment'') = JStr [] \<and>
   own blankValue (asc ''themes'') = JArr [JStr (asc ''work'')] \<and>
   own blankValue (asc ''tone'') = JStr (asc ''upbeat'') \<and>
   own blankValue (asc ''summary'') = JStr (asc ''Expresses enjoyment of work.'') \<and>
   callGeminiAPI blankWorld user defaultModel 0 3 [] =
     (Inr \<lparr> sentiment = JStr (asc ''neutral''), themes = JArr [JStr (asc ''work'')],
            tone = JStr (asc ''upbeat''),
            summary = JStr (asc ''Expresses enjoyment of work.'') \<rparr>,
      [Request defaultModel user]) \<and>
   JStr (asc ''neutral'') \<noteq> JStr []"
proof -
  have reply: "remote blankWorld ([] @ [Request defaultModel user]) = Http 200 (generated blankText)"
    by (simp add: blankWorld_def scripted_first)
  have body: "JSON_parse blankWorld (generated blankText) = Inr (generatedValue (JStr blankText))"
    by (simp add: blankWorld_def scripted_parse)
  have strip: "stripFences blankText = blankText"
    by (simp add: stripFences_def blankText_def asc_def trim_def isWhiteSpace_def startsWith_def
          fence_def)
  have neq: "generated blankText \<noteq> blankText" and nonempty: "blankText \<noteq> []"
    by (simp_all add: generated_def blankText_def asc_def)
  have inner: "JSON_parse blankWorld (stripFences blankText) = Inr blankValue"
    using neq by (simp add: strip blankWorld_def scripted_parse)
  have fields:
    "own blankValue (asc ''sentiment'') = JStr []"
    "own blankValue (asc ''themes'') = JArr [JStr (asc ''work'')]"
    "own blankValue (asc ''tone'') = JStr (asc ''upbeat'')"
    "own blankValue (asc ''summary'') = JStr (asc ''Expresses enjoyment of work.'')"
    by (simp_all add: blankValue_def asc_def)
  have "parseAnalysis blankWorld blankText =
     \<lparr> sentiment = JStr (asc ''neutral''), themes = JArr [JStr (asc ''work'')],
       tone = JStr (asc ''upbeat''), summary = JStr (asc ''Expresses enjoyment of work.'') \<rparr>"
    using inner by (simp add: parseAnalysis_def normalized_def getProp_def fields or_else_def)
      (simp add: blankValue_def asc_def)
  with call_200 [OF reply body, of 0 3]
    onStatus200_text [OF candidateText_generatedValue nonempty, of blankWorld]
  have "callGeminiAPI blankWorld user defaultModel 0 3 [] =
     (Inr \<lparr> sentiment = JStr (asc ''neutral''), themes = JArr [JStr (asc ''work'')],
            tone = JStr (asc ''upbeat''),
            summary = JStr (asc ''Expresses enjoyment of work.'') \<rparr>,
      [Request defaultModel user])"
    by simp
  moreover have "JStr (asc ''neutral'') \<noteq> JStr []"
    by (simp add: asc_def)
  ultimately show ?thesis
    using reply body inner fields candidateText_generatedValue by simp
qed

text \<open>
  C4 (amended). A 200 response whose generated text parses as a JSON object with all
  four fields, themes being an array, resolves with themes unchanged and with each of
  sentiment, tone and summary unchanged when it is truthy and replaced by its default
  when it is falsy: "neutral", "Not specified" and the first 200 code units of the raw
  text. So the result is identical to the four input fields when sentiment, tone and
  summary are truthy.
\<close>

theorem C4_present_fields_normalised:
  assumes "remote W (log @ [Request modelName userText]) = Http 200 data"
    and "JSON_parse W data = Inr response"
    and "candidateText response = JStr t"
    and "t \<noteq> []"
    and "JSON_parse W (stripFences t) = Inr (JObj kvs)"
    and "map_of kvs (asc ''sentiment'') = Some s"
    and "map_of kvs (asc ''themes'') = Some (JArr ts)"
    and "map_of kvs (asc ''tone'') = Some tn"
    and "map_of kvs (asc ''summary'') = Some sm"
  shows "callGeminiAPI W userText modelName retryCount maxRetries log =
           (Inr \<lparr> sentiment = (if truthy s then s else JStr (asc ''neutral'')),
                  themes = JArr ts,
                  tone = (if truthy tn then tn else JStr (asc ''Not specified'')),
                  summary = (if truthy sm then sm else JStr (take 200 t)) \<rparr>,
            log @ [Request modelName userText]) \<and>
         (truthy s \<and> truthy tn \<and> truthy sm \<longrightarrow>
            callGeminiAPI W userText modelName retryCount maxRetries log =
              (Inr \<lparr> sentiment = s, themes = JArr ts, tone = tn, summary = sm \<rparr>,
               log @ [Request modelName userText]))"
proof -
  have "parseAnalysis W t =
          \<lparr> sentiment = (if truthy s then s else JStr (asc ''neutral'')),
            themes = JArr ts,
            tone = (if truthy tn then tn else JStr (asc ''Not specified'')),
            summary = (if truthy sm then sm else JStr (take 200 t)) \<rparr>"
    using assms(5-9)
    by (simp add: parseAnalysis_def normalized_def getProp_def or_else_def substring0_def)
  with call_200 [OF assms(1,2)] onStatus200_text [OF assms(3,4)]
  have run: "callGeminiAPI W userText modelName retryCount maxRetries log =
           (Inr \<lparr> sentiment = (if truthy s then s else JStr (asc ''neutral'')),
                  themes = JArr ts,
                  tone = (if truthy tn then tn else JStr (asc ''Not specified'')),
                  summary = (if truthy sm then sm else JStr (take 200 t)) \<rparr>,
            log @ [Request modelName userText])"
    by simp
  then show ?thesis
    by simp
qed

theorem C4_witness:
  "remote fullWorld ([] @ [Request defaultModel user]) = Http 200 (generated fullText) \<and>
   JSON_parse fullWorld (generated fullText) = Inr (generatedValue (JStr fullText)) \<and>
   candidateText (generatedValue (JStr fullText)) = JStr fullText \<and>
   fullText \<noteq> [] \<and>
   JSON_parse fullWorld (stripFences fullText) = Inr fullValue \<and>
   truthy (JStr (asc ''positive'')) \<and> truthy (JStr (asc ''upbeat'')) \<and>
   truthy (JStr (asc ''Expresses enjoyment of work.'')) \<and>
   callGeminiAPI fullWorld user defaultModel 0 3 [] =
     (Inr \<lparr> sentiment = JStr (asc ''positive''), themes = JArr [JStr (asc ''work'')],
            tone = JStr (asc ''upbeat''),
            summary = JStr (asc ''Expresses enjoyment of work.'') \<rparr>,
      [Request defaultModel user]) \<and>
   remote hollowWorld ([] @ [Request defaultModel user]) = Http 200 (generated hollowText) \<and>
   JSON_parse hollowWorld (generated hollowText) = Inr (generatedValue (JStr hollowText)) \<and>
   candidateText (generatedValue (JStr hollowText)) = JStr hollowText \<and>
   hollowText \<noteq> [] \<and>
   JSON_parse hollowWorld (stripFences hollowText) = Inr hollowValue \<and>
   \<not> truthy (JStr []) \<and>
   callGeminiAPI hollowWorld user defaultModel 0 3 [] =
     (Inr \<lparr> sentiment = JStr (asc ''neutral''), themes = JArr [],
            tone = JStr (asc ''Not specified''), summary = JStr hollowText \<rparr>,
      [Request defaultModel user])"
proof -
  have reply: "remote fullWorld ([] @ [Request defaultModel user]) = Http 200 (generated fullText)"
    by (simp add: fullWorld_def scripted_first)
  have body: "JSON_parse fullWorld (generated fullText) = Inr (generatedValue (JStr fullText))"
    by (simp add: fullWorld_def scripted_parse)
  have inner: "JSON_parse fullWorld (stripFences fullText) =
     Inr (JObj [(asc ''sentiment'', JStr (asc ''positive'')),
                (asc ''themes'', JArr [JStr (asc ''work'')]),
                (asc ''tone'', JStr (asc ''upbeat'')),
                (asc ''summary'', JStr (asc ''Expresses enjoyment of work.''))])"
    using fullText_neq
    by (simp add: stripFences_fullText fullWorld_def scripted_parse fullValue_def)
  have truthy: "truthy (JStr (asc ''positive''))" "truthy (JStr (asc ''upbeat''))"
    "truthy (JStr (asc ''Expresses enjoyment of work.''))"
    by (simp_all add: asc_def)
  have full: "callGeminiAPI fullWorld user defaultModel 0 3 [] =
     (Inr \<lparr> sentiment = JStr (asc ''positive''), themes = JArr [JStr (asc ''work'')],
            tone = JStr (asc ''upbeat''),
            summary = JStr (asc ''Expresses enjoyment of work.'') \<rparr>,
      [Request defaultModel user])"
    using C4_present_fields_normalised
            [OF reply body candidateText_generatedValue fullText_nonempty inner,
             of "JStr (asc ''positive'')" "[JStr (asc ''work'')]" "JStr (asc ''upbeat'')"
                "JStr (asc ''Expresses enjoyment of work.'')" 0 3]
      truthy
    by (simp add: asc_def)
  have reply': "remote hollowWorld ([] @ [Request defaultModel user]) = Http 200 (generated hollowText)"
    by (simp add: hollowWorld_def scripted_first)
  have body': "JSON_parse hollowWorld (generated hollowText) = Inr (generatedValue (JStr hollowText))"
    by (simp add: hollowWorld_def scripted_parse)
  have strip: "stripFences hollowText = hollowText"
    by (simp add: stripFences_def hollowText_def asc_def trim_def isWhiteSpace_def startsWith_def
          fence_def)
  have neq: "generated hollowText \<noteq> hollowText" and nonempty: "hollowText \<noteq> []"
    and short: "take 200 hollowText = hollowText"
    by (simp_all add: generated_def hollowText_def asc_def)
  have inner': "JSON_parse hollowWorld (stripFences hollowText) =
     Inr (JObj [(asc ''sentiment'', JStr []), (asc ''themes'', JArr []),
                (asc ''tone'', JStr []), (asc ''summary'', JStr [])])"
    using neq by (simp add: strip hollowWorld_def scripted_parse hollowValue_def)
  have hollow: "callGeminiAPI hollowWorld user defaultModel 0 3 [] =
     (Inr \<lparr> sentiment = JStr (asc ''neutral''), themes = JArr [],
            tone = JStr (asc ''Not specified''), summary = JStr hollowText \<rparr>,
      [Request defaultModel user])"
    using C4_present_fields_normalised
            [OF reply' body' candidateText_generatedValue nonempty inner',
             of "JStr []" "[]" "JStr []" "JStr []" 0 3]
    by (simp add: asc_def short)
  from reply body inner truthy full reply' body' inner' hollow show ?thesis
    by (simp add: candidateText_generatedValue fullText_nonempty nonempty fullValue_def
          hollowValue_def)
qed

subsection \<open>The validation of a request\<close>

text \<open>
  C5 (as stated). Not every string of a length between 1 and 10000 passes the validation:
  a single space has length 1 and is answered with status 400, before any remote call.
\<close>

theorem C5_counterexample:
  "length [0x20 :: jschar] = 1 \<and>
   analyze fullWorld (JObj [(asc ''text'', JStr [0x20])]) [] =
     (Json400 (asc ''Please provide valid text to analyze''), [])"
  by (simp add: analyze_def getProp_def trim_def isWhiteSpace_def)

text \<open>
  C5 (amended). Let the body of a request to POST /api/analyze carry a string as
  \<open>text\<close>. When the string has at most 10000 code units and is not made of white space
  only (so its length is at least 1), the validation passes: the response is no 400 and
  the primary model is called with the trimmed text. When the string is empty, made of
  white space only or longer than 10000 code units, the response is a 400 and nothing is
  sent to the remote provider.
\<close>

theorem C5_validation:
  assumes "own body (asc ''text'') = JStr t"
  shows "(trim t \<noteq> [] \<and> length t \<le> 10000 \<longrightarrow>
            (\<forall>e. fst (analyze W body log) \<noteq> Json400 e) \<and>
            (\<exists>rest. snd (analyze W body log) = log @ Request (GEMINI_MODEL W) (trim t) # rest)) \<and>
         (trim t = [] \<or> 10000 < length t \<longrightarrow> (\<exists>e. analyze W body log = (Json400 e, log)))"
proof -
  from assms obtain kvs where "body = JObj kvs"
    using own_string by blast
  with assms have body: "getProp body (asc ''text'') = Inr (JStr t)"
    by (simp add: getProp_def)
  have blank: "trim [] = []"
    by (simp add: trim_def)
  have passes: "(\<forall>e. fst (analyze W body log) \<noteq> Json400 e) \<and>
      (\<exists>rest. snd (analyze W body log) = log @ Request (GEMINI_MODEL W) (trim t) # rest)"
    if ok: "trim t \<noteq> []" "length t \<le> 10000"
  proof -
    from ok(1) blank have "t \<noteq> []"
      by auto
    with ok body have run: "analyze W body log =
        (case analyzeWithFallback W (trim t) log of
           (Inr analysis, log') \<Rightarrow> (Json200 analysis, log')
         | (Inl message, log') \<Rightarrow> (error500 message, log'))"
      by (simp add: analyze_def)
    obtain res log' where fb: "analyzeWithFallback W (trim t) log = (res, log')"
      by (cases "analyzeWithFallback W (trim t) log")
    with analyzeWithFallback_log [of W "trim t" log]
    obtain rest where "log' = log @ Request (GEMINI_MODEL W) (trim t) # rest"
      by auto
    with run fb show ?thesis
      by (cases res) (auto simp: error500_def)
  qed
  have refused: "\<exists>e. analyze W body log = (Json400 e, log)"
    if bad: "trim t = [] \<or> 10000 < length t"
    using bad body by (auto simp: analyze_def)
  from passes refused show ?thesis
    by blast
qed

theorem C5_witness:
  "own (JObj [(asc ''text'', JStr user)]) (asc ''text'') = JStr user \<and>
   trim user \<noteq> [] \<and> length user \<le> 10000 \<and>
   (\<forall>e. fst (analyze fullWorld (JObj [(asc ''text'', JStr user)]) []) \<noteq> Json400 e) \<and>
   (\<exists>rest. snd (analyze fullWorld (JObj [(asc ''text'', JStr user)]) []) =
            [] @ Request (GEMINI_MODEL fullWorld) (trim user) # rest) \<and>
   own (JObj [(asc ''text'', JStr [])]) (asc ''text'') = JStr [] \<and>
   trim [] = [] \<and>
   (\<exists>e. analyze fullWorld (JObj [(asc ''text'', JStr [])]) [] = (Json400 e, []))"
proof -
  have a: "own (JObj [(asc ''text'', JStr user)]) (asc ''text'') = JStr user"
    and b: "own (JObj [(asc ''text'', JStr [])]) (asc ''text'') = JStr []"
    by simp_all
  have ok: "trim user \<noteq> []" "length user \<le> 10000"
    by (simp_all add: user_def asc_def trim_def isWhiteSpace_def)
  have blank: "trim [] = []"
    by (simp add: trim_def)
  from C5_validation [OF a, of fullWorld "[]"] C5_validation [OF b, of fullWorld "[]"] a b ok blank
  show ?thesis
    by simp
qed

subsection \<open>Rate limiting\<close>

text \<open>
  C6 (the code at the failing input). A 429 payload whose \<open>retryDelay\<close> is the string
  "soon" has no digits for \<open>parseInt\<close>: nothing is thrown, so the default of the
  \<open>catch\<close> is not reached, \<open>extractRetryDelay\<close> returns \<open>NaN\<close> and the call waits
  \<open>delay(NaN)\<close> before its retry, where the claim has 30 seconds.
\<close>

theorem C6_unparsable_retryDelay_is_NaN:
  "JSON_parse soonWorld soonBody = Inr (quotaValue (JStr (asc ''soon''))) \<and>
   extractRetryDelay (quotaValue (JStr (asc ''soon''))) = NaN \<and>
   callGeminiAPI soonWorld user defaultModel 0 3 [] =
     (Inr \<lparr> sentiment = JStr (asc ''neutral''), themes = JArr [],
            tone = JStr (asc ''mixed''), summary = JStr (asc ''I feel fine today.'') \<rparr>,
      [Request defaultModel user, Delay NaN, Request defaultModel user])"
proof -
  have reply: "remote soonWorld ([] @ [Request defaultModel user]) = Http 429 soonBody"
    by (simp add: soonWorld_def scripted_first)
  have body: "JSON_parse soonWorld soonBody = Inr (quotaValue (JStr (asc ''soon'')))"
    by (simp add: soonWorld_def scripted_parse)
  have nan: "extractRetryDelay (quotaValue (JStr (asc ''soon''))) = NaN"
    by (simp add: extractRetryDelay_def extractRetryDelay_try_def getProp_def getOptional_def
          quotaValue_def parseInt10_def)
       (simp add: asc_def isWhiteSpace_def isDigit_def)
  have reply2: "remote soonWorld ([Request defaultModel user, Delay NaN] @ [Request defaultModel user]) =
                  Http 200 (generated plainText)"
    by (simp add: soonWorld_def scripted_second_delayed)
  have neq: "soonBody \<noteq> generated plainText" "soonBody \<noteq> plainText"
    by (simp_all add: soonBody_def generated_def plainText_def asc_def)
  have body2: "JSON_parse soonWorld (generated plainText) = Inr (generatedValue (JStr plainText))"
    using neq by (simp add: soonWorld_def scripted_parse)
  have inner: "JSON_parse soonWorld (stripFences plainText) = Inl (asc ''Unexpected token'')"
    using neq plainText_neq by (simp add: stripFences_plainText soonWorld_def scripted_parse)
  have "parseAnalysis soonWorld plainText =
     \<lparr> sentiment = JStr (asc ''neutral''), themes = JArr [],
       tone = JStr (asc ''mixed''), summary = JStr (asc ''I feel fine today.'') \<rparr>"
    using inner by (simp add: parseAnalysis_def fallback_def substring0_def plainText_def asc_def)
  with call_200 [OF reply2 body2, of 1 3]
    onStatus200_text [OF candidateText_generatedValue plainText_nonempty, of soonWorld]
  have "callGeminiAPI soonWorld user defaultModel (Suc 0) 3 [Request defaultModel user, Delay NaN] =
     (Inr \<lparr> sentiment = JStr (asc ''neutral''), themes = JArr [],
            tone = JStr (asc ''mixed''), summary = JStr (asc ''I feel fine today.'') \<rparr>,
      [Request defaultModel user, Delay NaN, Request defaultModel user])"
    by simp
  with call_retry [OF reply body, of 0 3] nan body show ?thesis
    by simp
qed

text \<open>
  For comparison, the payload the provider sends and the payloads without a delay: the
  string "17s" gives 17 seconds, and a missing \<open>retryDelay\<close>, a missing \<open>details\<close> list
  and a \<open>null\<close> payload give the default of 30 seconds.
\<close>

lemma extractRetryDelay_examples:
  "extractRetryDelay (quotaValue (JStr (asc ''17s''))) = Num 17"
  "extractRetryDelay (quotaValue JUndefined) = Num 30"
  "extractRetryDelay missingValue = Num 30"
  "extractRetryDelay JNull = Num 30"
  by (simp_all add: extractRetryDelay_def extractRetryDelay_try_def getProp_def getOptional_def
        quotaValue_def missingValue_def parseInt10_def)
     (simp_all add: asc_def isWhiteSpace_def isDigit_def digitsValue_def)

text \<open>
  C7. A 429 response that arrives when no retry is left (\<open>retryCount \<ge> maxRetries\<close>)
  makes \<open>callGeminiAPI\<close> reject, and the request of this call is the last event of the
  chain: no delay and no further request follow. When the payload carries a non-empty
  string as \<open>error.message\<close>, that string is the message of the rejection.
\<close>

theorem C7_no_retry_left_rejects:
  assumes "remote W (log @ [Request modelName userText]) = Http 429 data"
    and "maxRetries \<le> retryCount"
  shows "\<exists>message.
           callGeminiAPI W userText modelName retryCount maxRetries log =
             (Inl message, log @ [Request modelName userText]) \<and>
           (\<forall>response e.
              JSON_parse W data = Inr response \<and>
              own (own response (asc ''error'')) (asc ''message'') = JStr e \<and> e \<noteq> []
              \<longrightarrow> message = e)"
proof (cases "JSON_parse W data")
  case (Inl e)
  with call_SyntaxError [OF assms(1) Inl] show ?thesis
    by simp
next
  case (Inr response)
  have run: "callGeminiAPI W userText modelName retryCount maxRetries log =
               (caught W (onOtherStatus 429 response), log @ [Request modelName userText])"
    using call_other [OF assms(1) Inr] assms(2) by simp
  obtain message where message: "caught W (onOtherStatus 429 response) = Inl message"
    using onOtherStatus_rejects by blast
  have "message = e"
    if e: "own (own response (asc ''error'')) (asc ''message'') = JStr e" "e \<noteq> []" for e
  proof -
    from e(1) obtain ekvs where "own response (asc ''error'') = JObj ekvs"
      using own_string by blast
    moreover from this obtain kvs where "response = JObj kvs"
      using own_truthy [of response "asc ''error''"] by auto
    ultimately have "caught W (onOtherStatus 429 response) = Inl e"
      using e by (simp add: caught_def onOtherStatus_def getProp_def getOptional_def or_else_def)
    with message show ?thesis
      by simp
  qed
  with run message Inr show ?thesis
    by auto
qed

theorem C7_witness:
  "remote quotaWorld ([] @ [Request defaultModel user]) = Http 429 quotaBody \<and>
   (3::nat) \<le> 3 \<and>
   JSON_parse quotaWorld quotaBody = Inr (quotaValue (JStr (asc ''17s''))) \<and>
   callGeminiAPI quotaWorld user defaultModel 3 3 [] =
     (Inl (asc ''Resource has been exhausted''), [Request defaultModel user])"
proof -
  have reply: "remote quotaWorld ([] @ [Request defaultModel user]) = Http 429 quotaBody"
    by (simp add: quotaWorld_def scripted_first)
  have body: "JSON_parse quotaWorld quotaBody = Inr (quotaValue (JStr (asc ''17s'')))"
    by (simp add: quotaWorld_def scripted_parse)
  have message:
    "own (own (quotaValue (JStr (asc ''17s''))) (asc ''error'')) (asc ''message'') =
       JStr (asc ''Resource has been exhausted'')"
    "asc ''Resource has been exhausted'' \<noteq> []"
    by (simp_all add: quotaValue_def asc_def)
  from C7_no_retry_left_rejects [OF reply, of 3 3] body message
  have "callGeminiAPI quotaWorld user defaultModel 3 3 [] =
          (Inl (asc ''Resource has been exhausted''), [Request defaultModel user])"
    by auto
  with reply body show ?thesis
    by simp
qed

subsection \<open>The fallback coordinator\<close>

text \<open>
  C8. Let the call with the primary model \<open>GEMINI_MODEL\<close> fail with some message. When
  the message does not contain "not found", the failure propagates as it is and nothing
  else is called. When it does, the alternatives gemini-1.5-flash-latest,
  gemini-1.5-flash, gemini-1.5-pro are called in this order, the primary model left out:
  the result is that of the first alternative that resolves, the ones before it having
  failed, and nothing is called after it; when all of them fail, the failure is "All
  models failed".
\<close>

theorem C8_model_fallback:
  assumes "callGeminiAPI W text (GEMINI_MODEL W) 0 3 log = (Inl message, log1)"
  shows "(\<not> includes_str message (asc ''not found'') \<longrightarrow>
            analyzeWithFallback W text log = (Inl message, log1)) \<and>
         (includes_str message (asc ''not found'') \<longrightarrow>
            (\<forall>pre m post log2 r log3.
               filter (\<lambda>a. a \<noteq> GEMINI_MODEL W)
                 [asc ''gemini-1.5-flash-latest'', asc ''gemini-1.5-flash'', asc ''gemini-1.5-pro'']
                 = pre @ m # post \<and>
               rejectedRun W text pre log1 = Some log2 \<and>
               callGeminiAPI W text m 0 3 log2 = (Inr r, log3) \<longrightarrow>
               analyzeWithFallback W text log = (Inr r, log3)) \<and>
            (\<forall>log2.
               rejectedRun W text
                 (filter (\<lambda>a. a \<noteq> GEMINI_MODEL W)
                    [asc ''gemini-1.5-flash-latest'', asc ''gemini-1.5-flash'', asc ''gemini-1.5-pro''])
                 log1 = Some log2 \<longrightarrow>
               analyzeWithFallback W text log =
                 (Inl (asc ''All models failed. Check available models at /api/models or in server logs.''),
                  log2)))"
proof (intro conjI impI allI)
  assume "\<not> includes_str message (asc ''not found'')"
  with assms show "analyzeWithFallback W text log = (Inl message, log1)"
    by (simp add: analyzeWithFallback_def notFound_iff)
next
  fix pre m post log2 r log3
  assume found: "includes_str message (asc ''not found'')"
    and "filter (\<lambda>a. a \<noteq> GEMINI_MODEL W)
           [asc ''gemini-1.5-flash-latest'', asc ''gemini-1.5-flash'', asc ''gemini-1.5-pro'']
           = pre @ m # post \<and>
         rejectedRun W text pre log1 = Some log2 \<and>
         callGeminiAPI W text m 0 3 log2 = (Inr r, log3)"
  then have "tryAlternatives W text alternativeModels log1 = (Some r, log3)"
    unfolding alternativeModels_def by (blast intro: tryAlternatives_first_success)
  with assms found show "analyzeWithFallback W text log = (Inr r, log3)"
    by (simp add: analyzeWithFallback_def notFound_iff)
next
  fix log2
  assume found: "includes_str message (asc ''not found'')"
    and run: "rejectedRun W text
           (filter (\<lambda>a. a \<noteq> GEMINI_MODEL W)
              [asc ''gemini-1.5-flash-latest'', asc ''gemini-1.5-flash'', asc ''gemini-1.5-pro''])
           log1 = Some log2"
  from run have "tryAlternatives W text alternativeModels log1 = (None, log2)"
    unfolding alternativeModels_def by (rule tryAlternatives_all_rejected)
  with assms found show "analyzeWithFallback W text log =
      (Inl (asc ''All models failed. Check available models at /api/models or in server logs.''),
       log2)"
    by (simp add: analyzeWithFallback_def notFound_iff)
qed

theorem C8_witness:
  "callGeminiAPI fallbackWorld user (GEMINI_MODEL fallbackWorld) 0 3 [] =
     (Inl (asc ''models/gemma-3-27b-it is not found''), [Request defaultModel user]) \<and>
   includes_str (asc ''models/gemma-3-27b-it is not found'') (asc ''not found'') \<and>
   analyzeWithFallback fallbackWorld user [] =
     (Inr \<lparr> sentiment = JStr (asc ''positive''), themes = JArr [JStr (asc ''work'')],
            tone = JStr (asc ''upbeat''),
            summary = JStr (asc ''Expresses enjoyment of work.'') \<rparr>,
      [Request defaultModel user, Request (asc ''gemini-1.5-flash-latest'') user]) \<and>
   callGeminiAPI missingWorld user (GEMINI_MODEL missingWorld) 0 3 [] =
     (Inl (asc ''models/gemma-3-27b-it is not found''), [Request defaultModel user]) \<and>
   analyzeWithFallback missingWorld user [] =
     (Inl (asc ''All models failed. Check available models at /api/models or in server logs.''),
      [Request defaultModel user, Request (asc ''gemini-1.5-flash-latest'') user,
       Request (asc ''gemini-1.5-flash'') user, Request (asc ''gemini-1.5-pro'') user]) \<and>
   callGeminiAPI htmlWorld user (GEMINI_MODEL htmlWorld) 0 3 [] =
     (Inl (asc ''Failed to parse API response: Unexpected token''), [Request defaultModel user]) \<and>
   \<not> includes_str (asc ''Failed to parse API response: Unexpected token'') (asc ''not found'') \<and>
   analyzeWithFallback htmlWorld user [] =
     (Inl (asc ''Failed to parse API response: Unexpected token''), [Request defaultModel user])"
proof -
  let ?a1 = "asc ''gemini-1.5-flash-latest''"
  let ?a2 = "asc ''gemini-1.5-flash''"
  let ?a3 = "asc ''gemini-1.5-pro''"
  let ?r = "\<lparr> sentiment = JStr (asc ''positive''), themes = JArr [JStr (asc ''work'')],
             tone = JStr (asc ''upbeat''),
             summary = JStr (asc ''Expresses enjoyment of work.'') \<rparr>"
  have message: "caught W (onOtherStatus 404 missingValue) =
                   Inl (asc ''models/gemma-3-27b-it is not found'')" for W
    by (simp add: caught_def onOtherStatus_def getProp_def getOptional_def or_else_def
          missingValue_def) (simp add: asc_def)
  have found: "includes_str (asc ''models/gemma-3-27b-it is not found'') (asc ''not found'')"
    by (simp add: asc_def startsWith_def)
  have alts: "filter (\<lambda>a. a \<noteq> defaultModel) [?a1, ?a2, ?a3] = [] @ ?a1 # [?a2, ?a3]"
    by (simp add: defaultModel_def asc_def)

  \<comment> \<open>The first alternative resolves.\<close>
  have primary: "GEMINI_MODEL fallbackWorld = defaultModel"
    by (simp add: fallbackWorld_def scripted_def)
  have reply: "remote fallbackWorld ([] @ [Request defaultModel user]) = Http 404 missingBody"
    by (simp add: fallbackWorld_def scripted_first)
  have body: "JSON_parse fallbackWorld missingBody = Inr missingValue"
    by (simp add: fallbackWorld_def scripted_parse)
  from call_other [OF reply body, of 3 0] message
  have first: "callGeminiAPI fallbackWorld user (GEMINI_MODEL fallbackWorld) 0 3 [] =
                 (Inl (asc ''models/gemma-3-27b-it is not found''), [Request defaultModel user])"
    by (simp add: primary)
  have reply2: "remote fallbackWorld ([Request defaultModel user] @ [Request ?a1 user]) =
                  Http 200 (generated fullText)"
    by (simp add: fallbackWorld_def scripted_second)
  have neq: "missingBody \<noteq> generated fullText" "missingBody \<noteq> fullText"
    by (simp_all add: missingBody_def generated_def fullText_def asc_def)
  have body2: "JSON_parse fallbackWorld (generated fullText) = Inr (generatedValue (JStr fullText))"
    using neq by (simp add: fallbackWorld_def scripted_parse)
  have inner: "JSON_parse fallbackWorld fullText = Inr fullValue"
    using neq fullText_neq by (simp add: fallbackWorld_def scripted_parse)
  have "parseAnalysis fallbackWorld fullText = ?r"
    by (simp add: parseAnalysis_def stripFences_fullText inner normalized_def getProp_def
          fullValue_def or_else_def asc_def)
  with call_200 [OF reply2 body2, of 0 3]
    onStatus200_text [OF candidateText_generatedValue fullText_nonempty, of fallbackWorld]
  have second: "callGeminiAPI fallbackWorld user ?a1 0 3 [Request defaultModel user] =
                  (Inr ?r, [Request defaultModel user, Request ?a1 user])"
    by simp
  have none: "rejectedRun fallbackWorld user [] [Request defaultModel user] =
                Some [Request defaultModel user]"
    by simp
  from C8_model_fallback [OF first] found alts none second
  have resolved: "analyzeWithFallback fallbackWorld user [] =
                    (Inr ?r, [Request defaultModel user, Request ?a1 user])"
    unfolding primary by blast

  \<comment> \<open>Every alternative fails.\<close>
  have primary': "GEMINI_MODEL missingWorld = defaultModel"
    by (simp add: missingWorld_def scripted_def)
  have reply': "remote missingWorld ([] @ [Request defaultModel user]) = Http 404 missingBody"
    by (simp add: missingWorld_def scripted_first)
  have body': "JSON_parse missingWorld missingBody = Inr missingValue"
    by (simp add: missingWorld_def scripted_parse)
  from call_other [OF reply' body', of 3 0] message
  have first': "callGeminiAPI missingWorld user (GEMINI_MODEL missingWorld) 0 3 [] =
                  (Inl (asc ''models/gemma-3-27b-it is not found''), [Request defaultModel user])"
    by (simp add: primary')
  have hang: "remote missingWorld (Request defaultModel user # log @ [Request m user]) =
                TransportError (asc ''socket hang up'')" for log m
    by (simp add: missingWorld_def scripted_def)
  have fails: "callGeminiAPI missingWorld user m 0 3 (Request defaultModel user # log) =
                 (Inl (asc ''Request failed: socket hang up''),
                  Request defaultModel user # log @ [Request m user])" for log m
    using call_TransportError [of missingWorld "Request defaultModel user # log" m user _ 0 3] hang
    by (simp add: asc_def)
  have "rejectedRun missingWorld user [?a1, ?a2, ?a3] [Request defaultModel user] =
          Some [Request defaultModel user, Request ?a1 user, Request ?a2 user, Request ?a3 user]"
    by (simp add: fails)
  with C8_model_fallback [OF first'] found alts
  have exhausted: "analyzeWithFallback missingWorld user [] =
      (Inl (asc ''All models failed. Check available models at /api/models or in server logs.''),
       [Request defaultModel user, Request ?a1 user, Request ?a2 user, Request ?a3 user])"
    unfolding primary' by simp

  \<comment> \<open>A failure of another kind propagates.\<close>
  have primary'': "GEMINI_MODEL htmlWorld = defaultModel"
    by (simp add: htmlWorld_def scripted_def)
  have reply'': "remote htmlWorld ([] @ [Request defaultModel user]) =
                   Http 429 (asc ''<html>Too Many Requests</html>'')"
    by (simp add: htmlWorld_def scripted_first)
  have body'': "JSON_parse htmlWorld (asc ''<html>Too Many Requests</html>'') =
                  Inl (asc ''Unexpected token'')"
    by (simp add: htmlWorld_def scripted_parse)
  from call_SyntaxError [OF reply'' body'', of 0 3]
  have first'': "callGeminiAPI htmlWorld user (GEMINI_MODEL htmlWorld) 0 3 [] =
      (Inl (asc ''Failed to parse API response: Unexpected token''), [Request defaultModel user])"
    by (simp add: primary'' asc_def)
  have other: "\<not> includes_str (asc ''Failed to parse API response: Unexpected token'') (asc ''not found'')"
    by (simp add: asc_def startsWith_def)
  with C8_model_fallback [OF first'']
  have propagated: "analyzeWithFallback htmlWorld user [] =
      (Inl (asc ''Failed to parse API response: Unexpected token''), [Request defaultModel user])"
    by simp

  from first found resolved first' exhausted first'' other propagated show ?thesis
    by simp
qed

subsection \<open>Rejected responses\<close>

text \<open>
  C9. A 200 response that lacks the expected structure is rejected, never answered with
  a defaulted result: whenever its generated text
  \<open>response.candidates[0].content.parts[0].text\<close> is not a non-empty string (a step of the
  path is missing, or the text is empty or no string), \<open>callGeminiAPI\<close> rejects, with
  one of the three messages for a missing candidate, missing parts or an empty text, or
  with the TypeError that the outer \<open>catch\<close> reports.
\<close>

theorem C9_invalid_shape_rejects:
  assumes "remote W (log @ [Request modelName userText]) = Http 200 data"
    and "JSON_parse W data = Inr response"
    and "\<forall>t. candidateText response = JStr t \<longrightarrow> t = []"
  shows "\<exists>message.
           callGeminiAPI W userText modelName retryCount maxRetries log =
             (Inl message, log @ [Request modelName userText]) \<and>
           (message = asc ''Invalid response format: missing candidates'' \<or>
            message = asc ''Invalid response format: missing content.parts'' \<or>
            message = asc ''Empty response from Gemini API'' \<or>
            (\<exists>e. message = asc ''Failed to parse API response: '' @ TypeError_message W e))"
  using call_200 [OF assms(1,2)] onStatus200_no_text [OF assms(3), of W]
  by auto

theorem C9_witness:
  "remote noCandidatesWorld ([] @ [Request defaultModel user]) = Http 200 (asc ''{}'') \<and>
   JSON_parse noCandidatesWorld (asc ''{}'') = Inr (JObj []) \<and>
   candidateText (JObj []) = JUndefined \<and>
   callGeminiAPI noCandidatesWorld user defaultModel 0 3 [] =
     (Inl (asc ''Invalid response format: missing candidates''), [Request defaultModel user])"
proof -
  have reply: "remote noCandidatesWorld ([] @ [Request defaultModel user]) = Http 200 (asc ''{}'')"
    by (simp add: noCandidatesWorld_def scripted_first)
  have body: "JSON_parse noCandidatesWorld (asc ''{}'') = Inr (JObj [])"
    by (simp add: noCandidatesWorld_def scripted_parse)
  have ctext: "candidateText (JObj []) = JUndefined"
    by (simp add: candidateText_def)
  then have none: "\<forall>t. candidateText (JObj []) = JStr t \<longrightarrow> t = []"
    by simp
  have "callGeminiAPI noCandidatesWorld user defaultModel 0 3 [] =
          (caught noCandidatesWorld (onStatus200 noCandidatesWorld (JObj [])),
           [Request defaultModel user])"
    using call_200 [OF reply body, of 0 3] by simp
  moreover have "caught noCandidatesWorld (onStatus200 noCandidatesWorld (JObj [])) =
          Inl (asc ''Invalid response format: missing candidates'')"
    by (simp add: caught_def onStatus200_def getProp_def)
  ultimately have "callGeminiAPI noCandidatesWorld user defaultModel 0 3 [] =
     (Inl (asc ''Invalid response format: missing candidates''), [Request defaultModel user])"
    using C9_invalid_shape_rejects [OF reply body none, of 0 3] by simp
  with reply body ctext show ?thesis
    by simp
qed

text \<open>
  C10. A response whose body \<open>JSON.parse\<close> rejects, whatever its status (429 included),
  makes \<open>callGeminiAPI\<close> reject at once with the parse failure: the body is parsed before
  the status is looked at, so there is no delay and no retry; the request of this call is
  the only event.
\<close>

theorem C10_unparsable_body_rejects_without_retry:
  assumes "remote W (log @ [Request modelName userText]) = Http statusCode data"
    and "JSON_parse W data = Inl e"
  shows "callGeminiAPI W userText modelName retryCount maxRetries log =
           (Inl (asc ''Failed to parse API response: '' @ e),
            log @ [Request modelName userText])"
  using assms by (subst callGeminiAPI.simps) (simp add: caught_def)

theorem C10_witness:
  "remote htmlWorld ([] @ [Request defaultModel user]) =
     Http 429 (asc ''<html>Too Many Requests</html>'') \<and>
   JSON_parse htmlWorld (asc ''<html>Too Many Requests</html>'') = Inl (asc ''Unexpected token'') \<and>
   callGeminiAPI htmlWorld user defaultModel 0 3 [] =
     (Inl (asc ''Failed to parse API response: Unexpected token''), [Request defaultModel user])"
proof -
  have reply: "remote htmlWorld ([] @ [Request defaultModel user]) =
                 Http 429 (asc ''<html>Too Many Requests</html>'')"
    by (simp add: htmlWorld_def scripted_first)
  have body: "JSON_parse htmlWorld (asc ''<html>Too Many Requests</html>'') =
                Inl (asc ''Unexpected token'')"
    by (simp add: htmlWorld_def scripted_parse)
  from C10_unparsable_body_rejects_without_retry [OF reply body, of 0 3] reply body
  show ?thesis
    by (simp add: asc_def)
qed

end
